theory Spec2Isabelle
  imports Main "HOL-Library.AList" "HOL-Library.Product_Lexorder"
begin

section \<open>Values exchanged with the host\<close>

text \<open>
  Tool arguments and tool results are JSON values.  A Python \<open>dict\<close> keeps its keys in
  insertion order, so an object is an association list; \<open>d[k] = v\<close> is
  \<^const>\<open>AList.update\<close>, which overwrites in place or appends at the end.  Floating-point
  numbers are not modelled.  A Python \<open>str\<close> is a \<^typ>\<open>string\<close>, one \<^typ>\<open>char\<close> per
  character: a \<^typ>\<open>char\<close> is a code point below 256, and text with code points from 256
  on is outside the model.
\<close>

datatype json =
    JNull
  | JBool bool
  | JInt int
  | JStr string
  | JList "json list"
  | JObj "(string \<times> json) list"

type_synonym pydict = "(string \<times> json) list"

type_synonym args = "string \<rightharpoonup> json"

text \<open>
  \<open>TextContent(type="text", text=...)\<close>.  The text is either a string the server builds
  itself or \<open>json.dumps(v, indent=2, ...)\<close>; the serialiser belongs to the standard library,
  so the payload keeps the value \<open>v\<close> that is serialised.
\<close>

datatype text_content =
    TextContent string
  | TextContentJson json

text \<open>
  Exceptions that derive from Python's \<open>Exception\<close>, split the way the dispatcher's
  \<open>except\<close> clauses split them.  The string is \<open>str(e)\<close>.
\<close>

datatype exn =
    ChatAdminRequiredError
  | ChannelPrivateError
  | MessageNotModifiedError
  | MessageAuthorRequiredError
  | ValueError string
  | OtherException string

section \<open>Decimal text of integers\<close>

definition digit_char :: "nat \<Rightarrow> char" where
  "digit_char d = char_of (48 + d)"

text \<open>\<open>str(n)\<close> for a non-negative integer.\<close>

function str_nat :: "nat \<Rightarrow> string" where
  "str_nat n = (if n < 10 then [digit_char n] else str_nat (n div 10) @ [digit_char (n mod 10)])"
  by pat_completeness auto
termination
  by (relation "measure id") auto

declare str_nat.simps [simp del]

text \<open>\<open>str(i)\<close> for an integer.\<close>

definition str_int :: "int \<Rightarrow> string" where
  "str_int i = (if i < 0 then CHR ''-'' # str_nat (nat (- i)) else str_nat (nat i))"

section \<open>Python's \<open>int(s)\<close> on a string\<close>

text \<open>
  \<open>int(s)\<close> in base 10: optional white space, an optional sign, decimal digits in which
  single underscores may separate digits, optional white space, end of string.  Anything
  else raises \<open>ValueError\<close>, here \<^const>\<open>None\<close>.  So does a literal of more than
  \<open>sys.int_info.default_max_str_digits\<close> digits, leading zeros counted and underscores
  not: the server leaves that limit at its default.

  Below code point 256 the white space \<open>int\<close> skips is the six ASCII characters,
  U+0085 and U+00A0, and there is no decimal digit other than \<open>0\<close> to \<open>9\<close>.  Digits and
  spaces from code point 256 on, which \<open>int\<close> also accepts, cannot be written in a
  \<^typ>\<open>string\<close>; the theorems about \<open>int\<close> are stated for ASCII strings.
\<close>

definition ascii :: "string \<Rightarrow> bool" where
  "ascii s = (\<forall>c \<in> set s. (of_char c :: nat) < 128)"

definition is_space :: "char \<Rightarrow> bool" where
  "is_space c =
     (c \<in> {CHR 0x09, CHR 0x0A, CHR 0x0B, CHR 0x0C, CHR 0x0D, CHR 0x20, CHR 0x85, CHR 0xA0})"

definition is_digit :: "char \<Rightarrow> bool" where
  "is_digit c = (48 \<le> (of_char c :: nat) \<and> (of_char c :: nat) \<le> 57)"

definition digit_val :: "char \<Rightarrow> nat" where
  "digit_val c = of_char c - 48"

definition max_str_digits :: nat where
  "max_str_digits = 4300"

text \<open>
  The digit scan after the first digit: \<open>acc\<close> is the value read so far, \<open>n\<close> the number
  of digits read so far, and the previous character was a digit.  An underscore must be
  followed by a digit.  The result is the value, the number of digits and the rest.
\<close>

fun scan_digits :: "nat \<Rightarrow> nat \<Rightarrow> string \<Rightarrow> (nat \<times> nat \<times> string) option" where
  "scan_digits acc n [] = Some (acc, n, [])"
| "scan_digits acc n (c # cs) =
     (if is_digit c then scan_digits (10 * acc + digit_val c) (Suc n) cs
      else if c = CHR ''_'' then
        (case cs of
           [] \<Rightarrow> None
         | d # ds \<Rightarrow>
             if is_digit d then scan_digits (10 * acc + digit_val d) (Suc n) ds else None)
      else Some (acc, n, c # cs))"

definition py_int :: "string \<Rightarrow> int option" where
  "py_int s =
     (let t = dropWhile is_space s;
          (neg, u) = (case t of
                        [] \<Rightarrow> (False, t)
                      | c # r \<Rightarrow> if c = CHR ''+'' then (False, r)
                                else if c = CHR ''-'' then (True, r)
                                else (False, t))
      in case u of
           [] \<Rightarrow> None
         | c # cs \<Rightarrow>
             if is_digit c then
               (case scan_digits (digit_val c) 1 cs of
                  None \<Rightarrow> None
                | Some (v, n, rest) \<Rightarrow>
                    if dropWhile is_space rest = [] \<and> n \<le> max_str_digits
                    then Some (if neg then - int v else int v)
                    else None)
             else None)"

section \<open>Chat references\<close>

text \<open>
  \<open>resolve_chat_id\<close> receives whatever the arguments mapping holds, so it is a function on
  JSON values.  \<open>s.lstrip("@")\<close> removes every leading \<open>@\<close>.
\<close>

definition lstrip :: "char \<Rightarrow> string \<Rightarrow> string" where
  "lstrip c s = dropWhile (\<lambda>x. x = c) s"

fun resolve_chat_id :: "json \<Rightarrow> json" where
  "resolve_chat_id (JStr s) =
     (case py_int s of
        Some n \<Rightarrow> JInt n
      | None \<Rightarrow> JStr (lstrip (CHR ''@'') s))"
| "resolve_chat_id v = v"

text \<open>
  The spec speaks of one leading marker; this is that reading, kept apart from
  the code's \<^const>\<open>lstrip\<close> so the two can be compared.
\<close>

definition strip_one_marker :: "string \<Rightarrow> string" where
  "strip_one_marker s = (case s of [] \<Rightarrow> [] | c # r \<Rightarrow> if c = CHR ''@'' then r else s)"

section \<open>Timestamps\<close>

text \<open>
  A Python \<open>datetime\<close>: the wall-clock fields and \<open>tzinfo\<close>, \<^const>\<open>None\<close> for a naive
  value and otherwise the offset from UTC in minutes.
\<close>

record datetime =
  year :: nat
  month :: nat
  day :: nat
  hour :: nat
  minute :: nat
  second :: nat
  microsecond :: nat
  tzinfo :: "int option"

definition is_leap :: "nat \<Rightarrow> bool" where
  "is_leap y = (y mod 4 = 0 \<and> (y mod 100 \<noteq> 0 \<or> y mod 400 = 0))"

definition days_in_month :: "nat \<Rightarrow> nat \<Rightarrow> nat" where
  "days_in_month y m =
     (if m = 2 then (if is_leap y then 29 else 28)
      else if m \<in> {4, 6, 9, 11} then 30 else 31)"

text \<open>The invariant of the \<open>datetime\<close> class.\<close>

definition valid_datetime :: "datetime \<Rightarrow> bool" where
  "valid_datetime dt =
     (1 \<le> year dt \<and> year dt \<le> 9999 \<and> 1 \<le> month dt \<and> month dt \<le> 12 \<and>
      1 \<le> day dt \<and> day dt \<le> days_in_month (year dt) (month dt) \<and>
      hour dt < 24 \<and> minute dt < 60 \<and> second dt < 60 \<and> microsecond dt < 1000000)"

text \<open>\<open>%m\<close>, \<open>%d\<close>, \<open>%H\<close>, \<open>%M\<close>, \<open>%S\<close>: two digits, zero-padded.\<close>

definition pad2 :: "nat \<Rightarrow> string" where
  "pad2 n = (if n < 10 then CHR ''0'' # str_nat n else str_nat n)"

text \<open>
  \<open>dt.strftime("%Y-%m-%d %H:%M:%S UTC")\<close>.  It prints the wall-clock fields and never
  reads \<open>tzinfo\<close>.  \<open>%Y\<close> is the year as the C library prints it; glibc does not pad it,
  so the four-character width holds from year 1000 on.
\<close>

definition strftime :: "datetime \<Rightarrow> string" where
  "strftime dt =
     str_nat (year dt) @ ''-'' @ pad2 (month dt) @ ''-'' @ pad2 (day dt) @ '' '' @
     pad2 (hour dt) @ '':'' @ pad2 (minute dt) @ '':'' @ pad2 (second dt) @ '' UTC''"

definition format_timestamp :: "datetime option \<Rightarrow> string option" where
  "format_timestamp dto =
     (case dto of
        None \<Rightarrow> None
      | Some dt \<Rightarrow>
          (let dt' = (if tzinfo dt = None then dt\<lparr>tzinfo := Some 0\<rparr> else dt)
           in Some (strftime dt')))"

text \<open>
  The reader of the fixed format \<open>YYYY-MM-DD HH:MM:SS UTC\<close>, used to state the round trip:
  four digits, two digits for every other field, the separators, the suffix, and a result
  that is a valid UTC \<open>datetime\<close>.  It is not part of the server.
\<close>

definition take_digits :: "nat \<Rightarrow> string \<Rightarrow> (nat \<times> string) option" where
  "take_digits k s =
     (if k \<le> length s \<and> (\<forall>c \<in> set (take k s). is_digit c)
      then Some (foldl (\<lambda>a c. 10 * a + digit_val c) 0 (take k s), drop k s)
      else None)"

definition expect :: "string \<Rightarrow> string \<Rightarrow> string option" where
  "expect lit s = (if take (length lit) s = lit then Some (drop (length lit) s) else None)"

definition parse_timestamp :: "string \<Rightarrow> datetime option" where
  "parse_timestamp s0 =
     Option.bind (take_digits 4 s0) (\<lambda>(y, s1).
     Option.bind (expect ''-'' s1) (\<lambda>s2.
     Option.bind (take_digits 2 s2) (\<lambda>(mo, s3).
     Option.bind (expect ''-'' s3) (\<lambda>s4.
     Option.bind (take_digits 2 s4) (\<lambda>(d, s5).
     Option.bind (expect '' '' s5) (\<lambda>s6.
     Option.bind (take_digits 2 s6) (\<lambda>(h, s7).
     Option.bind (expect '':'' s7) (\<lambda>s8.
     Option.bind (take_digits 2 s8) (\<lambda>(mi, s9).
     Option.bind (expect '':'' s9) (\<lambda>s10.
     Option.bind (take_digits 2 s10) (\<lambda>(sec, s11).
       if s11 = '' UTC'' \<and>
          valid_datetime \<lparr>year = y, month = mo, day = d, hour = h, minute = mi,
                           second = sec, microsecond = 0, tzinfo = Some 0\<rparr>
       then Some \<lparr>year = y, month = mo, day = d, hour = h, minute = mi,
                  second = sec, microsecond = 0, tzinfo = Some 0\<rparr>
       else None)))))))))))"

text \<open>
  Comparison of two datetimes that both carry UTC: the order of the fields.  The handler
  overwrites \<open>tzinfo\<close> with UTC before it compares, so \<open>tzinfo\<close> takes no part.
\<close>

definition dt_key :: "datetime \<Rightarrow> nat \<times> nat \<times> nat \<times> nat \<times> nat \<times> nat \<times> nat" where
  "dt_key dt = (year dt, month dt, day dt, hour dt, minute dt, second dt, microsecond dt)"

definition dt_less :: "datetime \<Rightarrow> datetime \<Rightarrow> bool" where
  "dt_less a b = (dt_key a < dt_key b)"

section \<open>Media\<close>

text \<open>
  The attributes of a document, told apart by class name as the source does; every class
  the source does not name is \<open>DocumentAttributeOther\<close>.  The flag of an audio attribute is
  the truth value of its \<open>voice\<close> field.
\<close>

datatype doc_attr =
    DocumentAttributeVideo
  | DocumentAttributeAudio bool
  | DocumentAttributeSticker
  | DocumentAttributeAnimated
  | DocumentAttributeOther

record document =
  attributes :: "doc_attr list"

datatype media =
    MessageMediaPhoto
  | MessageMediaDocument "document option"
  | MessageMediaWebPage
  | MessageMediaGeo
  | MessageMediaContact
  | MessageMediaPoll
  | MessageMediaOther

text \<open>The \<open>for attr in doc.attributes\<close> loop with the \<open>return "document"\<close> after it.\<close>

fun attrs_media_type :: "doc_attr list \<Rightarrow> string" where
  "attrs_media_type [] = ''document''"
| "attrs_media_type (DocumentAttributeVideo # as) = ''video''"
| "attrs_media_type (DocumentAttributeAudio voice # as) = (if voice then ''voice'' else ''audio'')"
| "attrs_media_type (DocumentAttributeSticker # as) = ''sticker''"
| "attrs_media_type (DocumentAttributeAnimated # as) = ''gif''"
| "attrs_media_type (DocumentAttributeOther # as) = attrs_media_type as"

text \<open>
  \<open>get_media_type\<close> on \<open>message.media\<close>.  A document payload whose \<open>document\<close> is \<open>None\<close>
  leaves the \<open>if doc:\<close> block without returning and falls through the remaining
  \<open>isinstance\<close> tests to the last line.
\<close>

fun media_type_of :: "media option \<Rightarrow> string option" where
  "media_type_of None = None"
| "media_type_of (Some MessageMediaPhoto) = Some ''photo''"
| "media_type_of (Some (MessageMediaDocument (Some doc))) = Some (attrs_media_type (attributes doc))"
| "media_type_of (Some (MessageMediaDocument None)) = Some ''other''"
| "media_type_of (Some MessageMediaWebPage) = Some ''webpage''"
| "media_type_of (Some MessageMediaGeo) = Some ''location''"
| "media_type_of (Some MessageMediaContact) = Some ''contact''"
| "media_type_of (Some MessageMediaPoll) = Some ''poll''"
| "media_type_of (Some MessageMediaOther) = Some ''other''"

section \<open>Python helpers\<close>

text \<open>Running a step that may raise, then the rest: the exception passes through.\<close>

definition and_then :: "exn + 'a \<Rightarrow> ('a \<Rightarrow> exn + 'b) \<Rightarrow> exn + 'b" where
  "and_then r f = (case r of Inl e \<Rightarrow> Inl e | Inr x \<Rightarrow> f x)"

text \<open>The truth value of a JSON value in an \<open>if\<close>; Python's \<open>None\<close> is \<^const>\<open>JNull\<close>.\<close>

fun truthy :: "json \<Rightarrow> bool" where
  "truthy JNull = False"
| "truthy (JBool b) = b"
| "truthy (JInt n) = (n \<noteq> 0)"
| "truthy (JStr s) = (s \<noteq> [])"
| "truthy (JList xs) = (xs \<noteq> [])"
| "truthy (JObj kvs) = (kvs \<noteq> [])"

text \<open>
  \<open>str(v)\<close> inside an f-string.  The text of a list or a dict is its \<open>repr\<close>, which is not
  modelled; the schema admits no such value where an f-string is built.
\<close>

fun py_str :: "json \<Rightarrow> string" where
  "py_str JNull = ''None''"
| "py_str (JBool b) = (if b then ''True'' else ''False'')"
| "py_str (JInt n) = str_int n"
| "py_str (JStr s) = s"
| "py_str (JList xs) = ''[...]''"
| "py_str (JObj kvs) = ''{...}''"

text \<open>The name of a value's type, as error messages print it.\<close>

fun type_name :: "json \<Rightarrow> string" where
  "type_name JNull = ''NoneType''"
| "type_name (JBool b) = ''bool''"
| "type_name (JInt n) = ''int''"
| "type_name (JStr s) = ''str''"
| "type_name (JList xs) = ''list''"
| "type_name (JObj kvs) = ''dict''"

text \<open>A name between single quotes.\<close>

definition quoted :: "string \<Rightarrow> string" where
  "quoted s = CHR 0x27 # s @ [CHR 0x27]"

text \<open>\<open>args[k]\<close> raises \<open>KeyError\<close>, whose text is the quoted key; \<open>args.get(k, d)\<close> does not.\<close>

definition arg_index :: "args \<Rightarrow> string \<Rightarrow> exn + json" where
  "arg_index a k =
     (case a k of
        None \<Rightarrow> Inl (OtherException (quoted k))
      | Some v \<Rightarrow> Inr v)"

definition arg_get :: "args \<Rightarrow> string \<Rightarrow> json \<Rightarrow> json" where
  "arg_get a k d = (case a k of None \<Rightarrow> d | Some v \<Rightarrow> v)"

text \<open>\<open>d[k]\<close> on a dict the server built.\<close>

definition dict_index :: "pydict \<Rightarrow> string \<Rightarrow> exn + json" where
  "dict_index d k =
     (case map_of d k of
        None \<Rightarrow> Inl (OtherException (quoted k))
      | Some v \<Rightarrow> Inr v)"

definition json_opt_str :: "string option \<Rightarrow> json" where
  "json_opt_str so = (case so of None \<Rightarrow> JNull | Some s \<Rightarrow> JStr s)"

definition json_opt_int :: "int option \<Rightarrow> json" where
  "json_opt_int io = (case io of None \<Rightarrow> JNull | Some i \<Rightarrow> JInt i)"

text \<open>\<open>sep.join(parts)\<close>.\<close>

fun join :: "string \<Rightarrow> string list \<Rightarrow> string" where
  "join sep [] = []"
| "join sep [p] = p"
| "join sep (p # q # ps) = p @ sep @ join sep (q # ps)"

text \<open>\<open>s or ""\<close> for an optional string.\<close>

definition or_empty :: "string option \<Rightarrow> string" where
  "or_empty so = (case so of None \<Rightarrow> [] | Some s \<Rightarrow> s)"

section \<open>Entities and messages of the remote service\<close>

record tl_user =
  u_id :: int
  u_first_name :: "string option"
  u_last_name :: "string option"
  u_username :: "string option"
  u_bot :: bool

record tl_chat =
  c_id :: int
  c_title :: "string option"

record tl_channel =
  ch_id :: int
  ch_title :: "string option"
  ch_megagroup :: bool

text \<open>
  \<open>OtherEntity\<close> is an object of any other class: the name of its class, and its \<open>id\<close>
  when it has one.
\<close>

datatype entity =
    User tl_user
  | Chat tl_chat
  | Channel tl_channel
  | OtherEntity string "int option"

fun get_sender_name :: "entity option \<Rightarrow> string" where
  "get_sender_name None = ''Unknown''"
| "get_sender_name (Some (User u)) =
     (let parts = [or_empty (u_first_name u), or_empty (u_last_name u)];
          name = join '' '' (filter (\<lambda>p. p \<noteq> []) parts)
      in if name \<noteq> [] then name
         else if or_empty (u_username u) \<noteq> [] then or_empty (u_username u)
         else str_int (u_id u))"
| "get_sender_name (Some (Chat c)) =
     (if or_empty (c_title c) \<noteq> [] then or_empty (c_title c) else str_int (c_id c))"
| "get_sender_name (Some (Channel c)) =
     (if or_empty (ch_title c) \<noteq> [] then or_empty (ch_title c) else str_int (ch_id c))"
| "get_sender_name (Some (OtherEntity cls ido)) =
     (case ido of None \<Rightarrow> ''Unknown'' | Some i \<Rightarrow> str_int i)"

text \<open>\<open>sender.id if sender else None\<close>; an object without \<open>id\<close> raises \<open>AttributeError\<close>.\<close>

fun sender_id_of :: "entity option \<Rightarrow> exn + json" where
  "sender_id_of None = Inr JNull"
| "sender_id_of (Some (User u)) = Inr (JInt (u_id u))"
| "sender_id_of (Some (Chat c)) = Inr (JInt (c_id c))"
| "sender_id_of (Some (Channel c)) = Inr (JInt (ch_id c))"
| "sender_id_of (Some (OtherEntity cls None)) =
     Inl (OtherException (quoted cls @ '' object has no attribute '' @ quoted ''id''))"
| "sender_id_of (Some (OtherEntity cls (Some i))) = Inr (JInt i)"

text \<open>
  \<open>get_chat_type\<close> on an entity; for a dialog the \<open>getattr\<close> in its first line takes the
  dialog's \<open>entity\<close>, which is how the list-chats loop calls it.
\<close>

fun get_chat_type :: "entity \<Rightarrow> string" where
  "get_chat_type (Channel c) = (if ch_megagroup c then ''group'' else ''channel'')"
| "get_chat_type (Chat c) = ''group''"
| "get_chat_type (User u) = (if u_bot u then ''bot'' else ''user'')"
| "get_chat_type (OtherEntity cls ido) = ''unknown''"

text \<open>
  The reply header of a message.  Its \<open>reply_to_msg_id\<close> is an optional field of the
  client library's type: a header can be there without a message id.
\<close>

record reply_header =
  reply_to_msg_id :: "int option"

text \<open>
  A message as the client library hands it over.  \<open>m_get_sender\<close> is what the remote call
  \<open>await message.get_sender()\<close> comes back with; \<open>m_forward\<close> is the truth value of
  \<open>message.forward\<close>.
\<close>

record message =
  m_id :: int
  m_get_sender :: "exn + entity option"
  m_date :: "datetime option"
  m_text :: "string option"
  m_reply_to :: "reply_header option"
  m_media :: "media option"
  m_forward :: bool

definition get_media_type :: "message \<Rightarrow> string option" where
  "get_media_type msg = media_type_of (m_media msg)"

definition format_message :: "message \<Rightarrow> exn + pydict" where
  "format_message msg =
     and_then (m_get_sender msg) (\<lambda>sender.
     let sender_name = get_sender_name sender in
     and_then (sender_id_of sender) (\<lambda>sender_id.
     let result0 = [(''id'', JInt (m_id msg)),
                    (''sender_name'', JStr sender_name),
                    (''sender_id'', sender_id),
                    (''date'', json_opt_str (format_timestamp (m_date msg))),
                    (''text'', JStr (or_empty (m_text msg)))];
         result1 = (case m_reply_to msg of
                      None \<Rightarrow> result0
                    | Some h \<Rightarrow>
                        AList.update ''reply_to_msg_id'' (json_opt_int (reply_to_msg_id h))
                          result0);
         result2 = (case get_media_type msg of
                      None \<Rightarrow> result1
                    | Some media_type \<Rightarrow>
                        if media_type \<noteq> [] then AList.update ''media_type'' (JStr media_type) result1
                        else result1);
         result3 = (if m_forward msg then AList.update ''forwarded'' (JBool True) result2
                    else result2)
     in Inr result3))"

record dialog =
  d_id :: int
  d_title :: "string option"
  d_name :: "string option"
  d_unread_count :: int
  d_message :: "message option"
  d_entity :: entity

section \<open>The remote client\<close>

text \<open>
  The client library is not part of the repository.  Its calls are the fields of a record:
  each maps the arguments the handler passes to what the call comes back with, a result
  or an exception.  An asynchronous iterator is a lazy sequence that yields a message,
  stops, or raises; what lies behind the element at which a loop breaks is never run.
\<close>

datatype kwval = KwJson json | KwNone | KwDate datetime

type_synonym kwargs = "(string \<times> kwval) list"

datatype msg_iter = Stop | Yield message msg_iter | Raise exn

record affected =
  pts_count :: "int option"

record remote =
  get_dialogs :: "json \<Rightarrow> json \<Rightarrow> exn + dialog list"
  iter_messages :: "json \<Rightarrow> kwargs \<Rightarrow> msg_iter"
  get_messages :: "json \<Rightarrow> json \<Rightarrow> exn + message option"
  delete_messages :: "json \<Rightarrow> json list \<Rightarrow> exn + affected list"

text \<open>The iterator that yields the messages of a list and then goes on as \<open>rest\<close>.\<close>

fun iter_of :: "message list \<Rightarrow> msg_iter \<Rightarrow> msg_iter" where
  "iter_of [] rest = rest"
| "iter_of (m # ms) rest = Yield m (iter_of ms rest)"

section \<open>Handlers\<close>

subsection \<open>List chats\<close>

definition chat_info :: "dialog \<Rightarrow> string \<Rightarrow> pydict" where
  "chat_info d ctype =
     (let info0 = [(''id'', JInt (d_id d)),
                   (''title'', if or_empty (d_title d) \<noteq> [] then JStr (or_empty (d_title d))
                               else json_opt_str (d_name d)),
                   (''type'', JStr ctype),
                   (''unread_count'', JInt (d_unread_count d))]
      in case d_message d of
           None \<Rightarrow> info0
         | Some m \<Rightarrow>
             if or_empty (m_text m) \<noteq> [] then
               AList.update ''last_message_date'' (json_opt_str (format_timestamp (m_date m)))
                 (AList.update ''last_message'' (JStr (take 100 (or_empty (m_text m)))) info0)
             else info0)"

text \<open>The \<open>for d in dialogs\<close> loop; \<open>results\<close> is the list built so far.\<close>

fun list_chats_loop :: "json \<Rightarrow> dialog list \<Rightarrow> pydict list \<Rightarrow> pydict list" where
  "list_chats_loop chat_type_filter [] results = results"
| "list_chats_loop chat_type_filter (d # ds) results =
     (let ctype = get_chat_type (d_entity d)
      in if truthy chat_type_filter \<and> JStr ctype \<noteq> chat_type_filter
         then list_chats_loop chat_type_filter ds results
         else list_chats_loop chat_type_filter ds (results @ [chat_info d ctype]))"

definition handle_list_chats :: "remote \<Rightarrow> args \<Rightarrow> exn + text_content list" where
  "handle_list_chats rc a =
     (let limit = arg_get a ''limit'' (JInt 20);
          chat_type_filter = arg_get a ''chat_type'' JNull;
          offset_id = arg_get a ''offset_id'' (JInt 0)
      in and_then (get_dialogs rc limit offset_id) (\<lambda>dialogs.
         Inr [TextContentJson (JList (map JObj (list_chats_loop chat_type_filter dialogs [])))]))"

subsection \<open>Read messages\<close>

text \<open>
  \<open>datetime.strptime(s, "%Y-%m-%d").replace(tzinfo=timezone.utc)\<close> belongs to the standard
  library and is a parameter \<open>strptime\<close>; on a value that is not a string it raises
  \<open>TypeError\<close>, whose text names the type (\<open>None\<close> for \<open>None\<close>).
\<close>

definition strptime_arg :: "(string \<Rightarrow> exn + datetime) \<Rightarrow> json \<Rightarrow> exn + datetime" where
  "strptime_arg strptime v =
     (case v of
        JStr s \<Rightarrow> strptime s
      | JNull \<Rightarrow> Inl (OtherException ''strptime() argument 1 must be str, not None'')
      | _ \<Rightarrow> Inl (OtherException (''strptime() argument 1 must be str, not '' @ type_name v)))"

text \<open>
  The test at the head of the loop body: \<^const>\<open>True\<close> means \<open>break\<close>.  A message without a
  date raises \<open>AttributeError\<close> at \<open>msg.date.replace\<close>.
\<close>

definition min_date_break :: "(string \<Rightarrow> exn + datetime) \<Rightarrow> args \<Rightarrow> message \<Rightarrow> exn + bool" where
  "min_date_break strptime a msg =
     (if truthy (arg_get a ''min_date'' JNull) then
        and_then (strptime_arg strptime (arg_get a ''min_date'' JNull)) (\<lambda>min_dt.
          case m_date msg of
            None \<Rightarrow> Inl (OtherException (quoted ''NoneType'' @ '' object has no attribute '' @
                                         quoted ''replace''))
          | Some d \<Rightarrow> Inr (dt_less d min_dt))
      else Inr False)"

text \<open>\<open>len(messages) >= limit\<close>; an \<open>int\<close> compares with an \<open>int\<close> or a \<open>bool\<close> only.\<close>

definition len_ge :: "nat \<Rightarrow> json \<Rightarrow> exn + bool" where
  "len_ge n limit =
     (case limit of
        JInt l \<Rightarrow> Inr (l \<le> int n)
      | JBool b \<Rightarrow> Inr ((if b then 1 else 0) \<le> n)
      | _ \<Rightarrow> Inl (OtherException (quoted ''>='' @ '' not supported between instances of '' @
                                   quoted ''int'' @ '' and '' @ quoted (type_name limit))))"

text \<open>The \<open>async for msg in ...\<close> loop; \<open>messages\<close> is the list built so far.\<close>

fun read_loop ::
  "(string \<Rightarrow> exn + datetime) \<Rightarrow> args \<Rightarrow> json \<Rightarrow> msg_iter \<Rightarrow> pydict list \<Rightarrow> exn + pydict list"
where
  "read_loop strptime a limit Stop messages = Inr messages"
| "read_loop strptime a limit (Raise e) messages = Inl e"
| "read_loop strptime a limit (Yield msg it) messages =
     and_then (min_date_break strptime a msg) (\<lambda>brk.
       if brk then Inr messages
       else and_then (format_message msg) (\<lambda>f.
              and_then (len_ge (length (messages @ [f])) limit) (\<lambda>full.
                if full then Inr (messages @ [f])
                else read_loop strptime a limit it (messages @ [f]))))"

definition read_result :: "json \<Rightarrow> pydict list \<Rightarrow> exn + pydict" where
  "read_result chat_id_raw messages =
     (let result = [(''chat_id'', chat_id_raw),
                    (''message_count'', JInt (int (length messages))),
                    (''messages'', JList (map JObj messages))]
      in if messages \<noteq> [] then
           and_then (dict_index (last messages) ''id'') (\<lambda>oldest.
             Inr (AList.update ''pagination_hint''
                    (JStr (''To load older messages, use offset_id='' @ py_str oldest))
                    (AList.update ''oldest_message_id'' oldest result)))
         else Inr result)"

definition read_kwargs :: "(string \<Rightarrow> exn + datetime) \<Rightarrow> args \<Rightarrow> exn + kwargs" where
  "read_kwargs strptime a =
     (let limit = arg_get a ''limit'' (JInt 20);
          offset_id = arg_get a ''offset_id'' (JInt 0);
          kwargs0 = [(''limit'', KwJson limit), (''offset_id'', KwJson offset_id)];
          kwargs1 = (if truthy (arg_get a ''min_date'' JNull)
                     then AList.update ''offset_date'' KwNone kwargs0 else kwargs0)
      in if truthy (arg_get a ''max_date'' JNull) then
           and_then (strptime_arg strptime (arg_get a ''max_date'' JNull)) (\<lambda>max_dt.
             Inr (AList.update ''offset_date'' (KwDate max_dt) kwargs1))
         else Inr kwargs1)"

definition handle_read_messages ::
  "(string \<Rightarrow> exn + datetime) \<Rightarrow> remote \<Rightarrow> args \<Rightarrow> exn + text_content list"
where
  "handle_read_messages strptime rc a =
     and_then (arg_index a ''chat_id'') (\<lambda>chat_id_raw.
     let chat_id = resolve_chat_id chat_id_raw;
         limit = arg_get a ''limit'' (JInt 20)
     in and_then (read_kwargs strptime a) (\<lambda>kwargs.
        and_then (read_loop strptime a limit (iter_messages rc chat_id kwargs) []) (\<lambda>messages.
        and_then (read_result chat_id_raw messages) (\<lambda>result.
        Inr [TextContentJson (JObj result)]))))"

subsection \<open>Read thread\<close>

text \<open>The \<open>async for\<close> loop that formats every reply.\<close>

fun thread_loop :: "msg_iter \<Rightarrow> pydict list \<Rightarrow> exn + pydict list" where
  "thread_loop Stop replies = Inr replies"
| "thread_loop (Raise e) replies = Inl e"
| "thread_loop (Yield msg it) replies =
     and_then (format_message msg) (\<lambda>f. thread_loop it (replies @ [f]))"

definition handle_read_thread :: "remote \<Rightarrow> args \<Rightarrow> exn + text_content list" where
  "handle_read_thread rc a =
     and_then (arg_index a ''chat_id'') (\<lambda>chat_id_raw.
     let chat_id = resolve_chat_id chat_id_raw in
     and_then (arg_index a ''message_id'') (\<lambda>message_id.
     let limit = arg_get a ''limit'' (JInt 20) in
     and_then (get_messages rc chat_id message_id) (\<lambda>parent.
       case parent of
         None \<Rightarrow> Inr [TextContent (''Message '' @ py_str message_id @ '' not found.'')]
       | Some p \<Rightarrow>
           and_then (format_message p) (\<lambda>parent_formatted.
           and_then (thread_loop
                       (iter_messages rc chat_id
                          [(''reply_to'', KwJson message_id), (''limit'', KwJson limit)]) [])
             (\<lambda>replies0.
           let replies = rev replies0 in
           Inr [TextContentJson (JObj
                  [(''parent_message'', JObj parent_formatted),
                   (''reply_count'', JInt (int (length replies))),
                   (''replies'', JList (map JObj replies))])])))))"

subsection \<open>Delete message\<close>

text \<open>\<open>getattr(result[0], "pts_count", 1) if result else 0\<close>.\<close>

definition deleted_count_of :: "affected list \<Rightarrow> int" where
  "deleted_count_of result =
     (case result of
        [] \<Rightarrow> 0
      | r # _ \<Rightarrow> (case pts_count r of None \<Rightarrow> 1 | Some n \<Rightarrow> n))"

definition handle_delete_message :: "remote \<Rightarrow> args \<Rightarrow> exn + text_content list" where
  "handle_delete_message rc a =
     and_then (arg_index a ''chat_id'') (\<lambda>chat_id_raw.
     let chat_id = resolve_chat_id chat_id_raw in
     and_then (arg_index a ''message_id'') (\<lambda>message_id.
     and_then (delete_messages rc chat_id [message_id]) (\<lambda>result.
     let deleted_count = deleted_count_of result in
     Inr [TextContentJson (JObj
            [(''status'', JStr ''deleted''),
             (''message_id'', message_id),
             (''chat_id'', chat_id_raw)])])))"

section \<open>Tool dispatcher\<close>

text \<open>
  \<open>telegram.client\<close> is \<^const>\<open>None\<close> until \<open>connect\<close> has built it; the flag is what
  \<open>is_connected()\<close> answers at the time of the call.
\<close>

datatype client = TelethonClient (is_connected: bool)

text \<open>
  A handler runs against the remote client, whose state \<open>'s\<close> it may change with every
  remote call; it returns its result or raises.  The dispatcher is stated for any ten
  handlers.
\<close>

type_synonym 's handler = "args \<Rightarrow> 's \<Rightarrow> (exn + text_content list) \<times> 's"

record 's handlers =
  h_list_chats :: "'s handler"
  h_get_chat_info :: "'s handler"
  h_read_messages :: "'s handler"
  h_search_messages :: "'s handler"
  h_read_thread :: "'s handler"
  h_send_message :: "'s handler"
  h_edit_message :: "'s handler"
  h_delete_message :: "'s handler"
  h_search_contacts :: "'s handler"
  h_get_user_info :: "'s handler"

definition tool_names :: "string list" where
  "tool_names =
     [''telegram_list_chats'', ''telegram_get_chat_info'', ''telegram_read_messages'',
      ''telegram_search_messages'', ''telegram_read_thread'', ''telegram_send_message'',
      ''telegram_edit_message'', ''telegram_delete_message'', ''telegram_search_contacts'',
      ''telegram_get_user_info'']"

text \<open>The \<open>if\<close>/\<open>elif\<close> chain inside the \<open>try\<close> block.\<close>

definition route :: "'s handlers \<Rightarrow> string \<Rightarrow> 's handler" where
  "route hs name arguments s =
     (if name = ''telegram_list_chats'' then h_list_chats hs arguments s
      else if name = ''telegram_get_chat_info'' then h_get_chat_info hs arguments s
      else if name = ''telegram_read_messages'' then h_read_messages hs arguments s
      else if name = ''telegram_search_messages'' then h_search_messages hs arguments s
      else if name = ''telegram_read_thread'' then h_read_thread hs arguments s
      else if name = ''telegram_send_message'' then h_send_message hs arguments s
      else if name = ''telegram_edit_message'' then h_edit_message hs arguments s
      else if name = ''telegram_delete_message'' then h_delete_message hs arguments s
      else if name = ''telegram_search_contacts'' then h_search_contacts hs arguments s
      else if name = ''telegram_get_user_info'' then h_get_user_info hs arguments s
      else (Inr [TextContent (''Unknown tool: '' @ name)], s))"

text \<open>
  The \<open>except\<close> clauses: the text returned and the lines written to the log.  The dash in
  the third message is U+2014, here its three UTF-8 bytes.
\<close>

fun on_exception :: "string \<Rightarrow> exn \<Rightarrow> text_content list \<times> string list" where
  "on_exception name ChatAdminRequiredError =
     ([TextContent ''Error: Admin privileges required for this action.''], [])"
| "on_exception name ChannelPrivateError =
     ([TextContent (''Error: This channel/group is private or you'' @ [CHR 0x27] @
                    ''re not a member.'')], [])"
| "on_exception name MessageNotModifiedError =
     ([TextContent (''Error: Message content is the same '' @ [CHR 0xE2, CHR 0x80, CHR 0x94] @
                    '' nothing to update.'')], [])"
| "on_exception name MessageAuthorRequiredError =
     ([TextContent ''Error: You can only edit/delete your own messages.''], [])"
| "on_exception name (ValueError m) = ([TextContent (''Error: '' @ m)], [])"
| "on_exception name (OtherException m) =
     ([TextContent (''Error: '' @ m)], [''Tool '' @ name @ '' failed: '' @ m])"

definition not_connected :: "text_content list" where
  "not_connected = [TextContent ''Not connected to Telegram. Please restart the server.'']"

text \<open>
  \<open>call_tool\<close>: the texts returned to the host, the lines logged, and the state of the
  remote client afterwards.
\<close>

definition call_tool ::
  "'s handlers \<Rightarrow> client option \<Rightarrow> string \<Rightarrow> args \<Rightarrow> 's \<Rightarrow> text_content list \<times> string list \<times> 's"
where
  "call_tool hs telegram_client name arguments s =
     (case telegram_client of
        None \<Rightarrow> (not_connected, [], s)
      | Some c \<Rightarrow>
          if \<not> is_connected c then (not_connected, [], s)
          else (case route hs name arguments s of
                  (Inr out, s') \<Rightarrow> (out, [], s')
                | (Inl e, s') \<Rightarrow> (fst (on_exception name e), snd (on_exception name e), s')))"

text \<open>A text is one line when it holds no line feed.\<close>

definition one_line :: "string \<Rightarrow> bool" where
  "one_line t = (CHR 0x0A \<notin> set t)"

text \<open>The guard \<open>telegram.client and telegram.client.is_connected()\<close>.\<close>

definition live :: "client option \<Rightarrow> bool" where
  "live tc = (case tc of None \<Rightarrow> False | Some c \<Rightarrow> is_connected c)"

text \<open>
  The words of the claim about \<open>min_date\<close>: a message is at or after the cutoff, and a
  list of messages is in strictly decreasing date order (every message has a date, and
  each date is later than all that follow).
\<close>

definition date_ge :: "datetime \<Rightarrow> message \<Rightarrow> bool" where
  "date_ge cutoff m = (case m_date m of None \<Rightarrow> False | Some d \<Rightarrow> \<not> dt_less d cutoff)"

definition newer :: "message \<Rightarrow> message \<Rightarrow> bool" where
  "newer x y =
     (case m_date x of
        None \<Rightarrow> False
      | Some dx \<Rightarrow> (case m_date y of None \<Rightarrow> False | Some dy \<Rightarrow> dt_less dy dx))"

definition dates_decreasing :: "message list \<Rightarrow> bool" where
  "dates_decreasing ms = ((\<forall>m \<in> set ms. m_date m \<noteq> None) \<and> sorted_wrt newer ms)"

text \<open>
  The client library's iterator is handed the limit and, asked for no message (a limit
  of 0 or below), yields none and stops.  Nothing is assumed for a limit of 1 or more.
\<close>

definition honours_limit :: "int \<Rightarrow> msg_iter \<Rightarrow> bool" where
  "honours_limit limit it = (limit \<le> 0 \<longrightarrow> it = Stop)"

text \<open>The values the tool schema of \<open>telegram_list_chats\<close> admits for \<open>chat_type\<close>.\<close>

definition chat_type_enum :: "string list" where
  "chat_type_enum = [''user'', ''group'', ''channel'', ''bot'']"

section \<open>Sample inputs\<close>

text \<open>Concrete values on which the theorems below are instantiated.\<close>

definition sample_msg :: message where
  "sample_msg = \<lparr>m_id = 7, m_get_sender = Inr None, m_date = None, m_text = None,
                 m_reply_to = None, m_media = None, m_forward = False\<rparr>"

definition sample_remote :: remote where
  "sample_remote =
     \<lparr>get_dialogs = (\<lambda>limit offset_id. Inr []),
      iter_messages = (\<lambda>chat_id kwargs. Stop),
      get_messages = (\<lambda>chat_id ids. Inr None),
      delete_messages = (\<lambda>chat_id ids. Inr [])\<rparr>"

definition sample_delete_args :: args where
  "sample_delete_args = [''chat_id'' \<mapsto> JStr ''@bob'', ''message_id'' \<mapsto> JInt 42]"

definition sample_no_args :: args where
  "sample_no_args = Map.empty"

text \<open>
  Ten handlers over a state that counts remote calls: each handler makes one call, then
  returns an empty result or raises.
\<close>

definition sample_handlers :: "nat handlers" where
  "sample_handlers =
     \<lparr>h_list_chats = (\<lambda>a n. (Inr [TextContentJson (JList [])], Suc n)),
      h_get_chat_info = (\<lambda>a n. (Inl (ValueError ''Cannot find any entity''), Suc n)),
      h_read_messages = (\<lambda>a n. (Inl ChannelPrivateError, Suc n)),
      h_search_messages =
        (\<lambda>a n. (Inl (ValueError (''unconverted data remains: '' @ [CHR 0x0A] @ ''x'')), Suc n)),
      h_read_thread = (\<lambda>a n. (Inr [], Suc n)),
      h_send_message = (\<lambda>a n. (Inl ChatAdminRequiredError, Suc n)),
      h_edit_message = (\<lambda>a n. (Inl MessageNotModifiedError, Suc n)),
      h_delete_message = (\<lambda>a n. (Inl MessageAuthorRequiredError, Suc n)),
      h_search_contacts = (\<lambda>a n. (Inl (OtherException ''connection reset''), Suc n)),
      h_get_user_info = (\<lambda>a n. (Inr [], Suc n))\<rparr>"

text \<open>A thread: the parent is message 1, and the replies arrive newest first.\<close>

definition sample_thread_remote :: remote where
  "sample_thread_remote =
     sample_remote\<lparr>get_messages := (\<lambda>chat_id ids. Inr (Some (sample_msg\<lparr>m_id := 1\<rparr>))),
                    iter_messages := (\<lambda>chat_id kwargs.
                       iter_of [sample_msg\<lparr>m_id := 5\<rparr>, sample_msg\<lparr>m_id := 4\<rparr>,
                                sample_msg\<lparr>m_id := 3\<rparr>] Stop)\<rparr>"

definition sample_thread_args :: args where
  "sample_thread_args = [''chat_id'' \<mapsto> JInt 100, ''message_id'' \<mapsto> JInt 1]"

text \<open>The record of \<^const>\<open>sample_msg\<close> with another id.\<close>

definition sample_formatted :: "int \<Rightarrow> pydict" where
  "sample_formatted i =
     [(''id'', JInt i), (''sender_name'', JStr ''Unknown''), (''sender_id'', JNull),
      (''date'', JNull), (''text'', JStr [])]"

text \<open>
  Dialogs of mixed kinds: a person, a basic group, a broadcast channel, a megagroup.  The
  last message of the basic group has 150 characters.
\<close>

definition sample_long_text :: string where
  "sample_long_text = replicate 150 (CHR ''a'')"

definition sample_dialog :: "int \<Rightarrow> message option \<Rightarrow> entity \<Rightarrow> dialog" where
  "sample_dialog i mo e =
     \<lparr>d_id = i, d_title = None, d_name = None, d_unread_count = 0, d_message = mo,
      d_entity = e\<rparr>"

definition sample_dialogs :: "dialog list" where
  "sample_dialogs =
     [sample_dialog 1 None (User \<lparr>u_id = 1, u_first_name = None, u_last_name = None,
                                   u_username = None, u_bot = False\<rparr>),
      sample_dialog 2 (Some (sample_msg\<lparr>m_text := Some sample_long_text\<rparr>))
        (Chat \<lparr>c_id = 2, c_title = None\<rparr>),
      sample_dialog 3 None (Channel \<lparr>ch_id = 3, ch_title = None, ch_megagroup = False\<rparr>),
      sample_dialog 4 None (Channel \<lparr>ch_id = 4, ch_title = None, ch_megagroup = True\<rparr>)]"

definition sample_chats_remote :: remote where
  "sample_chats_remote = sample_remote\<lparr>get_dialogs := (\<lambda>limit offset_id. Inr sample_dialogs)\<rparr>"

definition sample_chats_args :: args where
  "sample_chats_args = [''chat_type'' \<mapsto> JStr ''group'']"

text \<open>A naive timestamp with a fraction of a second.\<close>

definition sample_dt :: datetime where
  "sample_dt = \<lparr>year = 2024, month = 3, day = 9, hour = 7, minute = 5, second = 0,
                microsecond = 123456, tzinfo = None\<rparr>"

text \<open>
  Reading with a cutoff of 1 January 2024: the stream holds a message of 9 March 2024, one
  of 31 December 2023, and then goes on as \<open>rest\<close>.
\<close>

definition sample_strptime :: "string \<Rightarrow> exn + datetime" where
  "sample_strptime s =
     (if s = ''2024-01-01''
      then Inr \<lparr>year = 2024, month = 1, day = 1, hour = 0, minute = 0, second = 0,
                microsecond = 0, tzinfo = Some 0\<rparr>
      else Inl (ValueError ''time data does not match format''))"

definition sample_march :: message where
  "sample_march = sample_msg\<lparr>m_id := 9, m_date := Some sample_dt\<rparr>"

definition sample_december :: message where
  "sample_december =
     sample_msg\<lparr>m_id := 8,
                 m_date := Some (sample_dt\<lparr>year := 2023, month := 12, day := 31\<rparr>)\<rparr>"

definition sample_read_remote :: "msg_iter \<Rightarrow> remote" where
  "sample_read_remote rest =
     sample_remote\<lparr>iter_messages := (\<lambda>chat_id kwargs.
        iter_of [sample_march, sample_december] rest)\<rparr>"

definition sample_read_args :: "int \<Rightarrow> args" where
  "sample_read_args limit =
     [''chat_id'' \<mapsto> JInt 100, ''limit'' \<mapsto> JInt limit, ''min_date'' \<mapsto> JStr ''2024-01-01'']"

definition sample_cutoff :: datetime where
  "sample_cutoff = \<lparr>year = 2024, month = 1, day = 1, hour = 0, minute = 0, second = 0,
                    microsecond = 0, tzinfo = Some 0\<rparr>"

section \<open>Chat reference resolution\<close>

lemma is_digit_digit_char: "d < 10 \<Longrightarrow> is_digit (digit_char d)"
  by (simp add: is_digit_def digit_char_def)

lemma digit_val_digit_char: "d < 10 \<Longrightarrow> digit_val (digit_char d) = d"
  by (simp add: digit_val_def digit_char_def)

lemma str_nat_digits: "\<forall>c \<in> set (str_nat n). is_digit c"
  by (induction n rule: str_nat.induct) (subst str_nat.simps, auto simp: is_digit_digit_char)

lemma str_nat_nonempty: "str_nat n \<noteq> []"
  by (subst str_nat.simps) simp

lemma length_str_nat_le: "0 < k \<Longrightarrow> n < 10 ^ k \<Longrightarrow> length (str_nat n) \<le> k"
proof (induction n arbitrary: k rule: str_nat.induct)
  case (1 n)
  show ?case
  proof (cases "n < 10")
    case True
    then show ?thesis using "1.prems"(1) by (subst str_nat.simps) simp
  next
    case False
    then obtain j where k: "k = Suc j"
      using "1.prems"(1) by (cases k) auto
    have j: "0 < j"
    proof (rule ccontr)
      assume "\<not> 0 < j"
      then have "k = 1" using k by simp
      then show False using "1.prems"(2) False by simp
    qed
    have "n div 10 < 10 ^ j"
      using "1.prems"(2) k by (simp add: less_mult_imp_div_less mult.commute)
    then have "length (str_nat (n div 10)) \<le> j"
      using "1.IH"[OF False j] by simp
    then show ?thesis using False k by (subst str_nat.simps) simp
  qed
qed

lemma scan_digits_all: "\<forall>c \<in> set ds. is_digit c \<Longrightarrow>
   scan_digits acc n ds = Some (foldl (\<lambda>a c. 10 * a + digit_val c) acc ds, n + length ds, [])"
  by (induction ds arbitrary: acc n) auto

lemma foldl_str_nat: "foldl (\<lambda>a c. 10 * a + digit_val c) 0 (str_nat n) = n"
proof (induction n rule: str_nat.induct)
  case (1 n)
  show ?case
  proof (cases "n < 10")
    case True
    then show ?thesis by (subst str_nat.simps) (simp add: digit_val_digit_char)
  next
    case False
    then show ?thesis
      by (subst str_nat.simps) (simp add: 1 digit_val_digit_char)
  qed
qed

lemma is_digit_not_space: "is_digit c \<Longrightarrow> \<not> is_space c"
  by (auto simp: is_digit_def is_space_def)

lemma is_digit_not_sign: "is_digit c \<Longrightarrow> c \<noteq> CHR ''+'' \<and> c \<noteq> CHR ''-''"
  by (auto simp: is_digit_def)

lemma py_int_digits:
  assumes "ds \<noteq> []" "\<forall>c \<in> set ds. is_digit c" "length ds \<le> max_str_digits"
  shows "py_int ds = Some (int (foldl (\<lambda>a c. 10 * a + digit_val c) 0 ds))"
proof -
  from assms obtain c cs where ds: "ds = c # cs" by (cases ds) auto
  with assms have c: "is_digit c" and cs: "\<forall>c \<in> set cs. is_digit c" by auto
  show ?thesis
    using c is_digit_not_space[OF c] is_digit_not_sign[OF c] assms(3)
    by (simp add: py_int_def ds scan_digits_all[OF cs])
qed

lemma py_int_neg_digits:
  assumes "ds \<noteq> []" "\<forall>c \<in> set ds. is_digit c" "length ds \<le> max_str_digits"
  shows "py_int (CHR ''-'' # ds) = Some (- int (foldl (\<lambda>a c. 10 * a + digit_val c) 0 ds))"
proof -
  from assms obtain c cs where ds: "ds = c # cs" by (cases ds) auto
  with assms have c: "is_digit c" and cs: "\<forall>c \<in> set cs. is_digit c" by auto
  show ?thesis
    using c assms(3)
    by (simp add: py_int_def ds scan_digits_all[OF cs] is_space_def)
qed

lemma py_int_str_int:
  assumes "\<bar>i\<bar> < 10 ^ max_str_digits"
  shows "py_int (str_int i) = Some i"
proof -
  have pos: "0 < max_str_digits" by (simp add: max_str_digits_def)
  have "nat \<bar>i\<bar> < 10 ^ max_str_digits"
    using assms by (metis nat_less_iff abs_ge_zero of_nat_numeral of_nat_power)
  then have len: "length (str_nat (nat \<bar>i\<bar>)) \<le> max_str_digits"
    using length_str_nat_le[OF pos] by simp
  show ?thesis
  proof (cases "i < 0")
    case True
    then have "nat (- i) = nat \<bar>i\<bar>" by simp
    then show ?thesis
      using True len
      by (simp add: str_int_def py_int_neg_digits str_nat_nonempty str_nat_digits foldl_str_nat)
  next
    case False
    then have "nat i = nat \<bar>i\<bar>" by simp
    then show ?thesis
      using False len
      by (simp add: str_int_def py_int_digits str_nat_nonempty str_nat_digits foldl_str_nat)
  qed
qed


lemma lstrip_decomp: "\<exists>k. s = replicate k c @ lstrip c s"
proof (induction s)
  case Nil
  show ?case by (simp add: lstrip_def)
next
  case (Cons x s)
  then obtain k where k: "s = replicate k c @ lstrip c s" by blast
  show ?case
  proof (cases "x = c")
    case True
    have "x # s = replicate (Suc k) c @ lstrip c (x # s)"
      using k True by (simp add: lstrip_def)
    then show ?thesis by blast
  next
    case False
    then have "x # s = replicate 0 c @ lstrip c (x # s)" by (simp add: lstrip_def)
    then show ?thesis by blast
  qed
qed

lemma lstrip_no_lead: "lstrip c s = [] \<or> hd (lstrip c s) \<noteq> c"
  unfolding lstrip_def using hd_dropWhile[of "\<lambda>x. x = c" s] by blast

text \<open>
  The reading "one leading marker is stripped" fails on a handle with two markers: the code
  strips both.
\<close>

theorem resolve_chat_id_one_marker_counterexample:
  "py_int ''@@bob'' = None \<and>
   resolve_chat_id (JStr ''@@bob'') = JStr ''bob'' \<and>
   JStr (strip_one_marker ''@@bob'') = JStr ''@bob'' \<and>
   resolve_chat_id (JStr ''@@bob'') \<noteq> JStr (strip_one_marker ''@@bob'')"
  by (simp add: py_int_def is_space_def is_digit_def lstrip_def strip_one_marker_def)

text \<open>
  Claim C1, as the code has it.  An integer is returned unchanged.  The decimal text of
  an integer of at most 4300 digits resolves to that integer.  An ASCII string that
  \<open>int\<close> accepts resolves to its value.  Every other ASCII string comes back with all its
  leading \<open>@\<close> removed: the input is some number of \<open>@\<close> followed by the result, and the
  result does not start with \<open>@\<close>.
\<close>

theorem resolve_chat_id_normalises:
  "resolve_chat_id (JInt n) = JInt n \<and>
   (\<bar>n\<bar> < 10 ^ max_str_digits \<longrightarrow> resolve_chat_id (JStr (str_int n)) = JInt n) \<and>
   (ascii s \<and> py_int s = Some i \<longrightarrow> resolve_chat_id (JStr s) = JInt i) \<and>
   (ascii s \<and> py_int s = None \<longrightarrow>
      resolve_chat_id (JStr s) = JStr (lstrip (CHR ''@'') s) \<and>
      (\<exists>k. s = replicate k (CHR ''@'') @ lstrip (CHR ''@'') s) \<and>
      (lstrip (CHR ''@'') s = [] \<or> hd (lstrip (CHR ''@'') s) \<noteq> CHR ''@''))"
  using lstrip_decomp[of s "CHR ''@''"] lstrip_no_lead[of "CHR ''@''" s]
  by (simp add: py_int_str_int)

theorem resolve_chat_id_normalises_witness:
  "\<bar>- 1001234 :: int\<bar> < 10 ^ max_str_digits \<and>
   resolve_chat_id (JStr (str_int (- 1001234))) = JInt (- 1001234) \<and>
   ascii ''-1001234'' \<and> py_int ''-1001234'' = Some (- 1001234) \<and>
   resolve_chat_id (JStr ''-1001234'') = JInt (- 1001234) \<and>
   ascii ''@@bob'' \<and> py_int ''@@bob'' = None \<and>
   resolve_chat_id (JStr ''@@bob'') = JStr (lstrip (CHR ''@'') ''@@bob'') \<and>
   lstrip (CHR ''@'') ''@@bob'' = ''bob''"
proof -
  have "(10::int) ^ 7 \<le> 10 ^ max_str_digits"
    by (rule power_increasing) (simp_all add: max_str_digits_def)
  moreover have "\<bar>- 1001234 :: int\<bar> < 10 ^ 7" by simp
  ultimately have small: "\<bar>- 1001234 :: int\<bar> < 10 ^ max_str_digits" by (rule less_le_trans[rotated])
  have a: "py_int ''-1001234'' = Some (- 1001234)"
    by (simp add: py_int_def is_space_def is_digit_def digit_val_def max_str_digits_def)
  have b: "py_int ''@@bob'' = None"
    by (simp add: py_int_def is_space_def is_digit_def)
  have c: "lstrip (CHR ''@'') ''@@bob'' = ''bob''" by (simp add: lstrip_def)
  have d: "ascii ''-1001234''" "ascii ''@@bob''" by (simp_all add: ascii_def)
  show ?thesis
    using small a b c d resolve_chat_id_normalises[of "- 1001234" "''-1001234''" "- 1001234"]
      resolve_chat_id_normalises[of 0 "''@@bob''" 0]
    by simp
qed

section \<open>Steps that may raise\<close>

lemma and_then_Inr [simp]: "and_then (Inr x) f = f x"
  by (simp add: and_then_def)

lemma and_then_Inl [simp]: "and_then (Inl e) f = Inl e"
  by (simp add: and_then_def)

lemma arg_index_Some: "a k = Some v \<Longrightarrow> arg_index a k = Inr v"
  by (simp add: arg_index_def)

section \<open>Formatting a message returns its id\<close>

lemma format_message_returns:
  "m_get_sender msg = Inr sender \<Longrightarrow> (\<forall>cls. sender \<noteq> Some (OtherEntity cls None)) \<Longrightarrow>
   \<exists>r. format_message msg = Inr r"
  by (cases sender rule: sender_id_of.cases) (simp_all add: format_message_def Let_def)

lemma format_message_id:
  "format_message msg = Inr r \<Longrightarrow> map_of r ''id'' = Some (JInt (m_id msg))"
  by (auto simp: format_message_def and_then_def Let_def update_conv'
           split: sum.splits option.splits if_splits)

section \<open>Media classification\<close>

lemma attrs_media_type_document:
  "attrs_media_type as = ''document'' \<longleftrightarrow> (\<forall>a \<in> set as. a = DocumentAttributeOther)"
  by (induction as rule: attrs_media_type.induct) auto

lemma attrs_media_type_first:
  "\<forall>x \<in> set pre. x = DocumentAttributeOther \<Longrightarrow>
   attrs_media_type (pre @ a # rest) =
     (if a = DocumentAttributeOther then attrs_media_type rest else attrs_media_type [a])"
  by (induction pre) (auto, cases a, auto)

lemma media_type_of_document:
  "media_type_of mo = Some ''document'' \<longleftrightarrow>
   (\<exists>doc. mo = Some (MessageMediaDocument (Some doc)) \<and>
          (\<forall>a \<in> set (attributes doc). a = DocumentAttributeOther))"
  by (induction mo rule: media_type_of.induct) (auto simp: attrs_media_type_document)

text \<open>
  Claim C10.  A document payload without its inner document classifies as \<open>other\<close>.  The
  tag \<open>document\<close> is returned exactly when the inner document is present and none of its
  attributes is a video, audio, sticker or animation attribute.  The first such attribute
  decides the tag, whatever follows it.
\<close>

theorem get_media_type_document_payload:
  "(m_media msg = Some (MessageMediaDocument None) \<longrightarrow> get_media_type msg = Some ''other'') \<and>
   (get_media_type msg = Some ''document'' \<longleftrightarrow>
      (\<exists>doc. m_media msg = Some (MessageMediaDocument (Some doc)) \<and>
             (\<forall>a \<in> set (attributes doc). a = DocumentAttributeOther))) \<and>
   (m_media msg = Some (MessageMediaDocument (Some doc)) \<and> attributes doc = pre @ a # rest \<and>
      (\<forall>x \<in> set pre. x = DocumentAttributeOther) \<and> a \<noteq> DocumentAttributeOther \<longrightarrow>
      get_media_type msg = Some (attrs_media_type [a]) \<and>
      attrs_media_type [a] \<in> {''video'', ''voice'', ''audio'', ''sticker'', ''gif''})"
proof -
  have "a \<noteq> DocumentAttributeOther \<Longrightarrow>
        attrs_media_type [a] \<in> {''video'', ''voice'', ''audio'', ''sticker'', ''gif''}"
    by (cases a) auto
  then show ?thesis
    by (auto simp: get_media_type_def media_type_of_document attrs_media_type_first)
qed

theorem get_media_type_document_payload_witness:
  "get_media_type (sample_msg\<lparr>m_media := Some (MessageMediaDocument None)\<rparr>) = Some ''other'' \<and>
   get_media_type (sample_msg\<lparr>m_media := Some (MessageMediaDocument (Some \<lparr>attributes =
       [DocumentAttributeOther, DocumentAttributeAudio True, DocumentAttributeVideo]\<rparr>))\<rparr>) =
     Some ''voice'' \<and>
   get_media_type (sample_msg\<lparr>m_media := Some (MessageMediaDocument (Some \<lparr>attributes =
       [DocumentAttributeOther]\<rparr>))\<rparr>) = Some ''document''"
  using get_media_type_document_payload
          [of "sample_msg\<lparr>m_media := Some (MessageMediaDocument None)\<rparr>"
              "\<lparr>attributes = []\<rparr>" "[]" DocumentAttributeOther "[]"]
    get_media_type_document_payload
          [of "sample_msg\<lparr>m_media := Some (MessageMediaDocument (Some \<lparr>attributes =
                 [DocumentAttributeOther, DocumentAttributeAudio True, DocumentAttributeVideo]\<rparr>))\<rparr>"
              "\<lparr>attributes = [DocumentAttributeOther, DocumentAttributeAudio True,
                               DocumentAttributeVideo]\<rparr>"
              "[DocumentAttributeOther]" "DocumentAttributeAudio True" "[DocumentAttributeVideo]"]
    get_media_type_document_payload
          [of "sample_msg\<lparr>m_media := Some (MessageMediaDocument (Some \<lparr>attributes =
                 [DocumentAttributeOther]\<rparr>))\<rparr>"
              "\<lparr>attributes = []\<rparr>" "[]" DocumentAttributeOther "[]"]
  by simp

section \<open>Delete message\<close>

text \<open>
  Claim C9.  When the arguments hold a chat id and a message id and the remote delete
  returns, the handler answers \<open>deleted\<close> with the message id and the chat id as they were
  passed in, whatever the remote call returned: the count taken from that result does not
  reach the answer.
\<close>

theorem handle_delete_message_reports_deleted:
  assumes "a ''chat_id'' = Some chat_id_raw"
    and "a ''message_id'' = Some message_id"
    and "delete_messages rc (resolve_chat_id chat_id_raw) [message_id] = Inr result"
  shows "handle_delete_message rc a =
           Inr [TextContentJson (JObj [(''status'', JStr ''deleted''),
                                      (''message_id'', message_id),
                                      (''chat_id'', chat_id_raw)])]"
  using assms by (simp add: handle_delete_message_def arg_index_Some)

text \<open>On the sample remote the delete affects nothing, and the answer is still \<open>deleted\<close>.\<close>

theorem handle_delete_message_reports_deleted_witness:
  "sample_delete_args ''chat_id'' = Some (JStr ''@bob'') \<and>
   sample_delete_args ''message_id'' = Some (JInt 42) \<and>
   delete_messages sample_remote (resolve_chat_id (JStr ''@bob'')) [JInt 42] = Inr [] \<and>
   deleted_count_of [] = 0 \<and>
   handle_delete_message sample_remote sample_delete_args =
     Inr [TextContentJson (JObj [(''status'', JStr ''deleted''),
                                (''message_id'', JInt 42),
                                (''chat_id'', JStr ''@bob'')])]"
proof -
  have h1: "sample_delete_args ''chat_id'' = Some (JStr ''@bob'')"
    by (simp add: sample_delete_args_def)
  have h2: "sample_delete_args ''message_id'' = Some (JInt 42)"
    by (simp add: sample_delete_args_def)
  have h3: "delete_messages sample_remote (resolve_chat_id (JStr ''@bob'')) [JInt 42] = Inr []"
    by (simp add: sample_remote_def)
  show ?thesis
    using h1 h2 h3 handle_delete_message_reports_deleted[OF h1 h2 h3]
    by (simp add: deleted_count_of_def)
qed

section \<open>Tool dispatcher\<close>

lemma route_unknown:
  "name \<notin> set tool_names \<Longrightarrow>
   route hs name arguments s = (Inr [TextContent (''Unknown tool: '' @ name)], s)"
  by (simp add: route_def tool_names_def)

lemma call_tool_live:
  "live tc \<Longrightarrow> call_tool hs tc name arguments s =
     (case route hs name arguments s of
        (Inr out, s') \<Rightarrow> (out, [], s')
      | (Inl e, s') \<Rightarrow> (fst (on_exception name e), snd (on_exception name e), s'))"
  by (auto simp: call_tool_def live_def split: option.splits)

lemma call_tool_live_cases:
  assumes "live telegram_client"
  shows
   "(name \<notin> set tool_names \<longrightarrow>
       call_tool hs telegram_client name arguments s =
         ([TextContent (''Unknown tool: '' @ name)], [], s)) \<and>
    (route hs name arguments s = (Inr out, s') \<longrightarrow>
       call_tool hs telegram_client name arguments s = (out, [], s')) \<and>
    (route hs name arguments s = (Inl e, s') \<longrightarrow>
       (\<exists>t. fst (call_tool hs telegram_client name arguments s) = [TextContent t] \<and>
            take 7 t = ''Error: '' \<and>
            (one_line t \<longleftrightarrow> (\<forall>m. e = ValueError m \<or> e = OtherException m \<longrightarrow> one_line m)) \<and>
            (e = ChatAdminRequiredError \<longrightarrow>
               t = ''Error: Admin privileges required for this action.'') \<and>
            (e = ChannelPrivateError \<longrightarrow>
               t = ''Error: This channel/group is private or you'' @ [CHR 0x27] @
                   ''re not a member.'') \<and>
            (e = MessageNotModifiedError \<longrightarrow>
               t = ''Error: Message content is the same '' @ [CHR 0xE2, CHR 0x80, CHR 0x94] @
                   '' nothing to update.'') \<and>
            (e = MessageAuthorRequiredError \<longrightarrow>
               t = ''Error: You can only edit/delete your own messages.'') \<and>
            (\<forall>m. e = ValueError m \<or> e = OtherException m \<longrightarrow> t = ''Error: '' @ m)))"
proof (intro conjI impI)
  assume "name \<notin> set tool_names"
  then show "call_tool hs telegram_client name arguments s =
               ([TextContent (''Unknown tool: '' @ name)], [], s)"
    using assms by (simp add: call_tool_live route_unknown)
next
  assume "route hs name arguments s = (Inr out, s')"
  then show "call_tool hs telegram_client name arguments s = (out, [], s')"
    using assms by (simp add: call_tool_live)
next
  assume r: "route hs name arguments s = (Inl e, s')"
  have c: "fst (call_tool hs telegram_client name arguments s) = fst (on_exception name e)"
    using assms r by (simp add: call_tool_live)
  show "\<exists>t. fst (call_tool hs telegram_client name arguments s) = [TextContent t] \<and>
            take 7 t = ''Error: '' \<and>
            (one_line t \<longleftrightarrow> (\<forall>m. e = ValueError m \<or> e = OtherException m \<longrightarrow> one_line m)) \<and>
            (e = ChatAdminRequiredError \<longrightarrow>
               t = ''Error: Admin privileges required for this action.'') \<and>
            (e = ChannelPrivateError \<longrightarrow>
               t = ''Error: This channel/group is private or you'' @ [CHR 0x27] @
                   ''re not a member.'') \<and>
            (e = MessageNotModifiedError \<longrightarrow>
               t = ''Error: Message content is the same '' @ [CHR 0xE2, CHR 0x80, CHR 0x94] @
                   '' nothing to update.'') \<and>
            (e = MessageAuthorRequiredError \<longrightarrow>
               t = ''Error: You can only edit/delete your own messages.'') \<and>
            (\<forall>m. e = ValueError m \<or> e = OtherException m \<longrightarrow> t = ''Error: '' @ m)"
    unfolding c by (cases e) (simp_all add: one_line_def)
qed

text \<open>
  A handler that fails with a message of two lines: the text returned has two lines.
\<close>

theorem call_tool_two_line_error_counterexample:
  "live (Some (TelethonClient True)) \<and>
   route sample_handlers ''telegram_search_messages'' sample_no_args 0 =
     (Inl (ValueError (''unconverted data remains: '' @ [CHR 0x0A] @ ''x'')), 1) \<and>
   fst (call_tool sample_handlers (Some (TelethonClient True)) ''telegram_search_messages''
          sample_no_args 0) =
     [TextContent (''Error: unconverted data remains: '' @ [CHR 0x0A] @ ''x'')] \<and>
   \<not> one_line (''Error: unconverted data remains: '' @ [CHR 0x0A] @ ''x'')"
  by (simp add: live_def call_tool_def route_def sample_handlers_def one_line_def)

text \<open>
  Claim C3, as the code has it.  \<open>call_tool\<close> is a total function into texts, log lines
  and state: no exception is among its results.  Without a live connection it returns the
  fixed text.  On a live connection, a name outside the ten tools yields the single text
  \<open>Unknown tool: <name>\<close> and runs no handler; the result of a handler that returns is
  passed on; an exception of the handler becomes a single text that starts with
  \<open>Error: \<close>.  The four remote rejections give their fixed messages, each one line; a
  value error or any other exception gives \<open>Error: \<close> followed by its message, which is
  one line exactly when the message is.
\<close>

theorem call_tool_never_raises:
  "(\<not> live telegram_client \<longrightarrow>
      call_tool hs telegram_client name arguments s = (not_connected, [], s)) \<and>
   (live telegram_client \<longrightarrow>
    (name \<notin> set tool_names \<longrightarrow>
       call_tool hs telegram_client name arguments s =
         ([TextContent (''Unknown tool: '' @ name)], [], s)) \<and>
    (route hs name arguments s = (Inr out, s') \<longrightarrow>
       call_tool hs telegram_client name arguments s = (out, [], s')) \<and>
    (route hs name arguments s = (Inl e, s') \<longrightarrow>
       (\<exists>t. fst (call_tool hs telegram_client name arguments s) = [TextContent t] \<and>
            take 7 t = ''Error: '' \<and>
            (one_line t \<longleftrightarrow> (\<forall>m. e = ValueError m \<or> e = OtherException m \<longrightarrow> one_line m)) \<and>
            (e = ChatAdminRequiredError \<longrightarrow>
               t = ''Error: Admin privileges required for this action.'') \<and>
            (e = ChannelPrivateError \<longrightarrow>
               t = ''Error: This channel/group is private or you'' @ [CHR 0x27] @
                   ''re not a member.'') \<and>
            (e = MessageNotModifiedError \<longrightarrow>
               t = ''Error: Message content is the same '' @ [CHR 0xE2, CHR 0x80, CHR 0x94] @
                   '' nothing to update.'') \<and>
            (e = MessageAuthorRequiredError \<longrightarrow>
               t = ''Error: You can only edit/delete your own messages.'') \<and>
            (\<forall>m. e = ValueError m \<or> e = OtherException m \<longrightarrow> t = ''Error: '' @ m))))"
proof (intro conjI impI)
  assume "\<not> live telegram_client"
  then show "call_tool hs telegram_client name arguments s = (not_connected, [], s)"
    by (simp add: call_tool_def live_def split: option.splits)
qed (use call_tool_live_cases[of telegram_client name hs arguments s out s' e] in blast)+

text \<open>
  The sample handlers on a live connection: an unknown name, a handler that returns, one
  that raises a value error, one that raises a remote rejection; and a call without a
  client.
\<close>

theorem call_tool_never_raises_witness:
  "\<not> live None \<and>
   call_tool sample_handlers None ''telegram_nope'' sample_no_args 0 = (not_connected, [], 0) \<and>
   live (Some (TelethonClient True)) \<and>
   ''telegram_nope'' \<notin> set tool_names \<and>
   call_tool sample_handlers (Some (TelethonClient True)) ''telegram_nope'' sample_no_args 0 =
     ([TextContent ''Unknown tool: telegram_nope''], [], 0) \<and>
   route sample_handlers ''telegram_list_chats'' sample_no_args 0 = (Inr [TextContentJson (JList [])], 1) \<and>
   call_tool sample_handlers (Some (TelethonClient True)) ''telegram_list_chats'' sample_no_args 0 =
     ([TextContentJson (JList [])], [], 1) \<and>
   route sample_handlers ''telegram_get_chat_info'' sample_no_args 0 =
     (Inl (ValueError ''Cannot find any entity''), 1) \<and>
   fst (call_tool sample_handlers (Some (TelethonClient True)) ''telegram_get_chat_info'' sample_no_args 0) =
     [TextContent ''Error: Cannot find any entity''] \<and>
   route sample_handlers ''telegram_edit_message'' sample_no_args 0 = (Inl MessageNotModifiedError, 1) \<and>
   (\<exists>t. fst (call_tool sample_handlers (Some (TelethonClient True)) ''telegram_edit_message'' sample_no_args 0) =
          [TextContent t] \<and> one_line t)"
proof -
  have l: "live (Some (TelethonClient True))" by (simp add: live_def)
  have n: "''telegram_nope'' \<notin> set tool_names" by (simp add: tool_names_def)
  have r1: "route sample_handlers ''telegram_list_chats'' sample_no_args 0 =
              (Inr [TextContentJson (JList [])], 1)"
    by (simp add: route_def sample_handlers_def)
  have r2: "route sample_handlers ''telegram_get_chat_info'' sample_no_args 0 =
              (Inl (ValueError ''Cannot find any entity''), 1)"
    by (simp add: route_def sample_handlers_def)
  have r3: "route sample_handlers ''telegram_edit_message'' sample_no_args 0 =
              (Inl MessageNotModifiedError, 1)"
    by (simp add: route_def sample_handlers_def)
  have nl: "\<not> live None" by (simp add: live_def)
  show ?thesis
    using l nl n r1 r2 r3
      call_tool_never_raises[where telegram_client = None and name = "''telegram_nope''"
         and hs = sample_handlers and arguments = sample_no_args and s = 0 and out = "[]"
         and s' = 0 and e = ChatAdminRequiredError]
      call_tool_never_raises[where telegram_client = "Some (TelethonClient True)"
         and name = "''telegram_nope''" and hs = sample_handlers
         and arguments = sample_no_args and s = 0 and out = "[]" and s' = 0 and e = ChatAdminRequiredError]
      call_tool_never_raises[where telegram_client = "Some (TelethonClient True)"
         and name = "''telegram_list_chats''" and hs = sample_handlers
         and arguments = sample_no_args and s = 0 and out = "[TextContentJson (JList [])]" and s' = 1
         and e = ChatAdminRequiredError]
      call_tool_never_raises[where telegram_client = "Some (TelethonClient True)"
         and name = "''telegram_get_chat_info''" and hs = sample_handlers
         and arguments = sample_no_args and s = 0 and out = "[]" and s' = 1
         and e = "ValueError ''Cannot find any entity''"]
      call_tool_never_raises[where telegram_client = "Some (TelethonClient True)"
         and name = "''telegram_edit_message''" and hs = sample_handlers
         and arguments = sample_no_args and s = 0 and out = "[]" and s' = 1
         and e = MessageNotModifiedError]
    by auto
qed

text \<open>
  Claim C4.  When the connection is not live, every call returns the one fixed text
  whatever the name and the arguments, logs nothing and leaves the state of the remote
  client as it was; the answer is the same for any ten handlers, so none of them ran.
\<close>

theorem call_tool_not_connected:
  "\<not> live telegram_client \<Longrightarrow>
   call_tool hs telegram_client name arguments s = (not_connected, [], s) \<and>
   call_tool hs telegram_client name arguments s = call_tool hs' telegram_client name arguments s \<and>
   length not_connected = 1"
  by (simp add: call_tool_def live_def not_connected_def split: option.splits)

theorem call_tool_not_connected_witness:
  "\<not> live None \<and> \<not> live (Some (TelethonClient False)) \<and>
   call_tool sample_handlers None ''telegram_send_message'' sample_no_args 0 = (not_connected, [], 0) \<and>
   call_tool sample_handlers (Some (TelethonClient False)) ''telegram_nope'' sample_no_args 0 =
     (not_connected, [], 0) \<and>
   snd (snd (call_tool sample_handlers (Some (TelethonClient True)) ''telegram_send_message'' sample_no_args 0)) = 1"
proof -
  have a: "\<not> live None" and b: "\<not> live (Some (TelethonClient False))"
    by (simp_all add: live_def)
  have c: "snd (snd (call_tool sample_handlers (Some (TelethonClient True))
                      ''telegram_send_message'' sample_no_args 0)) = 1"
    by (simp add: call_tool_def route_def sample_handlers_def)
  show ?thesis
    using a b c call_tool_not_connected[OF a, of sample_handlers "''telegram_send_message''" sample_no_args 0]
      call_tool_not_connected[OF b, of sample_handlers "''telegram_nope''" sample_no_args 0]
    by simp
qed

section \<open>Message formatting\<close>

lemma attrs_media_type_nonempty: "attrs_media_type as \<noteq> []"
  by (induction as rule: attrs_media_type.induct) auto

lemma media_type_of_nonempty: "media_type_of mo = Some t \<Longrightarrow> t \<noteq> []"
  by (induction mo rule: media_type_of.induct) (auto simp: attrs_media_type_nonempty)

text \<open>
  The sender id is neither the timestamp nor the text, and it is in the record as null
  when the sender of the message is not resolved.  A reply header without a message id
  puts the reply id into the record as null as well.
\<close>

theorem format_message_null_sender_counterexample:
  "format_message sample_msg = Inr (sample_formatted 7) \<and>
   map_of (sample_formatted 7) ''sender_id'' = Some JNull \<and>
   ''sender_id'' \<noteq> ''date'' \<and> ''sender_id'' \<noteq> ''text'' \<and>
   format_message (sample_msg\<lparr>m_reply_to := Some \<lparr>reply_to_msg_id = None\<rparr>\<rparr>) =
     Inr (sample_formatted 7 @ [(''reply_to_msg_id'', JNull)])"
  by (simp add: format_message_def sample_msg_def sample_formatted_def get_media_type_def
        format_timestamp_def json_opt_str_def json_opt_int_def or_empty_def)

text \<open>
  Claim C6, as the code has it.  In the record of a formatted message the key
  \<open>media_type\<close> is present exactly when the media classifies to a tag (never for a
  message without media) and \<open>forwarded\<close> exactly when the message is forwarded, and then
  it is \<open>true\<close>; neither is ever null.  The key \<open>reply_to_msg_id\<close> is present exactly when
  the message has a reply header, and holds what the header holds: its message id, or
  null when the header has none.  The keys \<open>date\<close>, \<open>text\<close> and \<open>sender_id\<close> are
  always present; the text is empty when the message has none.  The only keys that can
  hold null are \<open>date\<close>, for a message without a date, \<open>sender_id\<close>, for a message whose
  sender is not resolved, and \<open>reply_to_msg_id\<close>, for a header without a message id.  No
  key occurs twice.
\<close>

theorem format_message_optional_keys:
  assumes "format_message msg = Inr r"
  shows "map_of r ''reply_to_msg_id'' =
           map_option (\<lambda>h. json_opt_int (reply_to_msg_id h)) (m_reply_to msg) \<and>
         map_of r ''media_type'' = map_option JStr (get_media_type msg) \<and>
         (m_media msg = None \<longrightarrow> map_of r ''media_type'' = None) \<and>
         map_of r ''forwarded'' = (if m_forward msg then Some (JBool True) else None) \<and>
         (\<forall>k \<in> {''media_type'', ''forwarded''}. map_of r k \<noteq> Some JNull) \<and>
         map_of r ''date'' = Some (json_opt_str (format_timestamp (m_date msg))) \<and>
         map_of r ''text'' = Some (JStr (or_empty (m_text msg))) \<and>
         (m_text msg = None \<longrightarrow> map_of r ''text'' = Some (JStr [])) \<and>
         (\<exists>sender sid. m_get_sender msg = Inr sender \<and> sender_id_of sender = Inr sid \<and>
                       map_of r ''sender_id'' = Some sid) \<and>
         (\<forall>k. map_of r k = Some JNull \<longrightarrow>
              (k = ''date'' \<and> m_date msg = None) \<or>
              (k = ''sender_id'' \<and> m_get_sender msg = Inr None) \<or>
              (k = ''reply_to_msg_id'' \<and>
               (\<exists>h. m_reply_to msg = Some h \<and> reply_to_msg_id h = None))) \<and>
         distinct (map fst r)"
proof -
  from assms obtain sender sid where
    gs: "m_get_sender msg = Inr sender" and si: "sender_id_of sender = Inr sid" and
    r: "r = (let result0 = [(''id'', JInt (m_id msg)),
                    (''sender_name'', JStr (get_sender_name sender)),
                    (''sender_id'', sid),
                    (''date'', json_opt_str (format_timestamp (m_date msg))),
                    (''text'', JStr (or_empty (m_text msg)))];
         result1 = (case m_reply_to msg of
                      None \<Rightarrow> result0
                    | Some h \<Rightarrow>
                        AList.update ''reply_to_msg_id'' (json_opt_int (reply_to_msg_id h))
                          result0);
         result2 = (case get_media_type msg of
                      None \<Rightarrow> result1
                    | Some media_type \<Rightarrow>
                        if media_type \<noteq> [] then AList.update ''media_type'' (JStr media_type) result1
                        else result1);
         result3 = (if m_forward msg then AList.update ''forwarded'' (JBool True) result2
                    else result2)
     in result3)"
    by (auto simp: format_message_def and_then_def Let_def split: sum.splits)
  have ne: "\<And>t. get_media_type msg = Some t \<Longrightarrow> t \<noteq> []"
    by (simp add: get_media_type_def media_type_of_nonempty)
  have m: "m_media msg = None \<Longrightarrow> get_media_type msg = None"
    by (simp add: get_media_type_def)
  have sidnull: "sid = JNull \<Longrightarrow> sender = None"
    using si by (cases sender rule: sender_id_of.cases) auto
  have dnull: "json_opt_str (format_timestamp (m_date msg)) = JNull \<Longrightarrow> m_date msg = None"
    by (simp add: json_opt_str_def format_timestamp_def split: option.splits)
  have rnull: "\<And>io. (json_opt_int io = JNull) = (io = None)"
    "\<And>io. (JNull = json_opt_int io) = (io = None)"
    by (auto simp: json_opt_int_def split: option.splits)
  have keys: "map_of r ''reply_to_msg_id'' =
                map_option (\<lambda>h. json_opt_int (reply_to_msg_id h)) (m_reply_to msg)"
    "map_of r ''media_type'' = map_option JStr (get_media_type msg)"
    "map_of r ''forwarded'' = (if m_forward msg then Some (JBool True) else None)"
    "map_of r ''date'' = Some (json_opt_str (format_timestamp (m_date msg)))"
    "map_of r ''text'' = Some (JStr (or_empty (m_text msg)))"
    "map_of r ''sender_id'' = Some sid"
    using ne by (auto simp: r Let_def update_conv' split: option.splits)
  have nulls: "\<forall>k. map_of r k = Some JNull \<longrightarrow>
              (k = ''date'' \<and> m_date msg = None) \<or>
              (k = ''sender_id'' \<and> m_get_sender msg = Inr None) \<or>
              (k = ''reply_to_msg_id'' \<and>
               (\<exists>h. m_reply_to msg = Some h \<and> reply_to_msg_id h = None))"
    using ne sidnull dnull gs
    by (auto simp: r Let_def update_conv' rnull split: option.splits if_splits)
  have opt: "\<forall>k \<in> {''media_type'', ''forwarded''}. map_of r k \<noteq> Some JNull"
    using keys(2,3) by (auto split: if_splits)
  have dist: "distinct (map fst r)"
    by (auto simp: r Let_def distinct_update split: option.splits)
  show ?thesis
    using keys m gs si nulls opt dist by (simp add: or_empty_def)
qed

text \<open>
  A forwarded reply without media, date, text or resolved sender: the reply id and the
  forwarded flag are there, the media tag is not.
\<close>

theorem format_message_optional_keys_witness:
  "format_message (sample_msg\<lparr>m_reply_to := Some \<lparr>reply_to_msg_id = Some 3\<rparr>, m_forward := True\<rparr>) =
     Inr [(''id'', JInt 7), (''sender_name'', JStr ''Unknown''), (''sender_id'', JNull),
          (''date'', JNull), (''text'', JStr []), (''reply_to_msg_id'', JInt 3),
          (''forwarded'', JBool True)] \<and>
   map_of [(''id'', JInt 7), (''sender_name'', JStr ''Unknown''), (''sender_id'', JNull),
           (''date'', JNull), (''text'', JStr []), (''reply_to_msg_id'', JInt 3),
           (''forwarded'', JBool True)] ''media_type'' = None"
proof -
  have h: "format_message (sample_msg\<lparr>m_reply_to := Some \<lparr>reply_to_msg_id = Some 3\<rparr>, m_forward := True\<rparr>) =
     Inr [(''id'', JInt 7), (''sender_name'', JStr ''Unknown''), (''sender_id'', JNull),
          (''date'', JNull), (''text'', JStr []), (''reply_to_msg_id'', JInt 3),
          (''forwarded'', JBool True)]"
    by (simp add: format_message_def sample_msg_def get_media_type_def format_timestamp_def
          json_opt_str_def json_opt_int_def or_empty_def)
  show ?thesis
    using h format_message_optional_keys[OF h] by (simp add: sample_msg_def)
qed


section \<open>Read thread\<close>

lemma thread_loop_all:
  "map format_message ms = map Inr fs \<Longrightarrow> thread_loop (iter_of ms Stop) acc = Inr (acc @ fs)"
proof (induction ms arbitrary: acc fs)
  case Nil
  then show ?case by simp
next
  case (Cons m ms)
  then obtain f fs' where fs: "fs = f # fs'" and f: "format_message m = Inr f"
    and rest: "map format_message ms = map Inr fs'"
    by (cases fs) auto
  show ?case using Cons.IH[OF rest, of "acc @ [f]"] by (simp add: fs f)
qed

lemma formatted_ids:
  "map format_message ms = map Inr fs \<Longrightarrow>
   map (\<lambda>f. map_of f ''id'') fs = map (\<lambda>m. Some (JInt (m_id m))) ms"
proof (induction ms arbitrary: fs)
  case Nil
  then show ?case by simp
next
  case (Cons m ms)
  then obtain f fs' where fs: "fs = f # fs'" and f: "format_message m = Inr f"
    and rest: "map format_message ms = map Inr fs'"
    by (cases fs) auto
  show ?case using Cons.IH[OF rest] format_message_id[OF f] by (simp add: fs)
qed

text \<open>
  Claim C7.  When the parent is found and the remote iterator yields the replies \<open>ms\<close>,
  the handler returns their records in the reverse of the order in which they arrived:
  the ids of the output are the ids of the input reversed, so replies that arrive newest
  first (ids falling) leave in chronological order (ids rising).
\<close>

theorem handle_read_thread_chronological:
  assumes "a ''chat_id'' = Some chat_id_raw"
    and "a ''message_id'' = Some message_id"
    and "get_messages rc (resolve_chat_id chat_id_raw) message_id = Inr (Some parent)"
    and "format_message parent = Inr parent_formatted"
    and "iter_messages rc (resolve_chat_id chat_id_raw)
           [(''reply_to'', KwJson message_id), (''limit'', KwJson (arg_get a ''limit'' (JInt 20)))] =
         iter_of ms Stop"
    and "map format_message ms = map Inr fs"
  shows "handle_read_thread rc a =
           Inr [TextContentJson (JObj
                  [(''parent_message'', JObj parent_formatted),
                   (''reply_count'', JInt (int (length ms))),
                   (''replies'', JList (map JObj (rev fs)))])] \<and>
         map (\<lambda>f. map_of f ''id'') (rev fs) = rev (map (\<lambda>m. Some (JInt (m_id m))) ms) \<and>
         (sorted_wrt (\<lambda>x y. y < x) (map m_id ms) \<longrightarrow> sorted_wrt (\<lambda>x y. x < y) (map m_id (rev ms)))"
proof -
  have len: "length fs = length ms"
    using assms(6) by (metis length_map)
  have h: "handle_read_thread rc a =
           Inr [TextContentJson (JObj
                  [(''parent_message'', JObj parent_formatted),
                   (''reply_count'', JInt (int (length ms))),
                   (''replies'', JList (map JObj (rev fs)))])]"
    using assms(1-5) thread_loop_all[OF assms(6), of "[]"]
    by (simp add: handle_read_thread_def arg_index_Some len)
  have ids: "map (\<lambda>f. map_of f ''id'') (rev fs) = rev (map (\<lambda>m. Some (JInt (m_id m))) ms)"
    using formatted_ids[OF assms(6)] by (metis rev_map)
  have ord: "sorted_wrt (\<lambda>x y. y < x) (map m_id ms) \<longrightarrow> sorted_wrt (\<lambda>x y. x < y) (map m_id (rev ms))"
    by (simp add: rev_map[symmetric] sorted_wrt_rev)
  show ?thesis using h ids ord by blast
qed

lemma format_sample_msg: "format_message (sample_msg\<lparr>m_id := i\<rparr>) = Inr (sample_formatted i)"
  by (simp add: format_message_def sample_msg_def sample_formatted_def get_media_type_def
        format_timestamp_def json_opt_str_def or_empty_def)

text \<open>Replies arriving as 5, 4, 3 leave as 3, 4, 5.\<close>

theorem handle_read_thread_chronological_witness:
  "sample_thread_args ''chat_id'' = Some (JInt 100) \<and>
   sample_thread_args ''message_id'' = Some (JInt 1) \<and>
   map m_id [sample_msg\<lparr>m_id := 5\<rparr>, sample_msg\<lparr>m_id := 4\<rparr>, sample_msg\<lparr>m_id := 3\<rparr>] = [5, 4, 3] \<and>
   handle_read_thread sample_thread_remote sample_thread_args =
     Inr [TextContentJson (JObj
            [(''parent_message'', JObj (sample_formatted 1)),
             (''reply_count'', JInt 3),
             (''replies'', JList (map JObj [sample_formatted 3, sample_formatted 4,
                                            sample_formatted 5]))])] \<and>
   map (\<lambda>f. map_of f ''id'') [sample_formatted 3, sample_formatted 4, sample_formatted 5] =
     [Some (JInt 3), Some (JInt 4), Some (JInt 5)]"
proof -
  have h1: "sample_thread_args ''chat_id'' = Some (JInt 100)"
    by (simp add: sample_thread_args_def)
  have h2: "sample_thread_args ''message_id'' = Some (JInt 1)"
    by (simp add: sample_thread_args_def)
  have h3: "get_messages sample_thread_remote (resolve_chat_id (JInt 100)) (JInt 1) =
              Inr (Some (sample_msg\<lparr>m_id := 1\<rparr>))"
    by (simp add: sample_thread_remote_def)
  have h5: "iter_messages sample_thread_remote (resolve_chat_id (JInt 100))
              [(''reply_to'', KwJson (JInt 1)),
               (''limit'', KwJson (arg_get sample_thread_args ''limit'' (JInt 20)))] =
            iter_of [sample_msg\<lparr>m_id := 5\<rparr>, sample_msg\<lparr>m_id := 4\<rparr>, sample_msg\<lparr>m_id := 3\<rparr>] Stop"
    by (simp add: sample_thread_remote_def)
  have h6: "map format_message [sample_msg\<lparr>m_id := 5\<rparr>, sample_msg\<lparr>m_id := 4\<rparr>, sample_msg\<lparr>m_id := 3\<rparr>] =
            map Inr [sample_formatted 5, sample_formatted 4, sample_formatted 3]"
    by (simp add: format_sample_msg)
  show ?thesis
    using h1 h2 handle_read_thread_chronological[OF h1 h2 h3 format_sample_msg h5 h6]
    by simp
qed

section \<open>List chats\<close>

lemma list_chats_loop_filter:
  "list_chats_loop f ds acc =
     acc @ map (\<lambda>d. chat_info d (get_chat_type (d_entity d)))
               (filter (\<lambda>d. \<not> (truthy f \<and> JStr (get_chat_type (d_entity d)) \<noteq> f)) ds)"
  by (induction ds arbitrary: acc) (simp_all add: Let_def)

lemma chat_info_fields:
  "map_of (chat_info d ctype) ''id'' = Some (JInt (d_id d))"
  "map_of (chat_info d ctype) ''type'' = Some (JStr ctype)"
  "map_of (chat_info d ctype) ''unread_count'' = Some (JInt (d_unread_count d))"
  by (auto simp: chat_info_def Let_def update_conv' split: option.splits)

lemma chat_info_preview:
  "map_of (chat_info d ctype) ''last_message'' =
     (case d_message d of
        None \<Rightarrow> None
      | Some m \<Rightarrow>
          (case m_text m of
             None \<Rightarrow> None
           | Some txt \<Rightarrow> if txt = [] then None else Some (JStr (take 100 txt))))"
  by (auto simp: chat_info_def Let_def update_conv' or_empty_def split: option.splits)

lemma list_chats_loop_string_filter:
  "t \<noteq> [] \<Longrightarrow>
   list_chats_loop (JStr t) ds acc =
     acc @ map (\<lambda>d. chat_info d t) (filter (\<lambda>d. get_chat_type (d_entity d) = t) ds)"
  by (induction ds arbitrary: acc) (simp_all add: Let_def)

lemma handle_list_chats_nonempty_filter:
  assumes "a ''chat_type'' = Some (JStr t)" and "t \<noteq> []"
    and "get_dialogs rc (arg_get a ''limit'' (JInt 20)) (arg_get a ''offset_id'' (JInt 0)) = Inr ds"
  shows "handle_list_chats rc a =
           Inr [TextContentJson (JList (map JObj
                  (map (\<lambda>d. chat_info d t) (filter (\<lambda>d. get_chat_type (d_entity d) = t) ds))))]"
proof -
  have f: "arg_get a ''chat_type'' JNull = JStr t"
    using assms(1) by (simp add: arg_get_def)
  show ?thesis
    using assms(3) list_chats_loop_string_filter[OF assms(2), of ds "[]"]
    by (simp add: handle_list_chats_def Let_def f)
qed

text \<open>
  Claim C8.  With a \<open>chat_type\<close> filter out of the schema's values, the result has one
  entry for each dialog whose computed kind equals the filter and for no other, in the
  order of the source: the entries pair off with the source list filtered.  Each entry
  carries the id and the unread count of its dialog and the kind.  Its last-message
  preview is the first 100 characters of the text of the dialog's last message, hence at
  most 100 characters long, and is absent when the dialog has no last message or that
  message has no text.
\<close>

theorem handle_list_chats_filters:
  assumes "a ''chat_type'' = Some (JStr t)" and "t \<in> set chat_type_enum"
    and "get_dialogs rc (arg_get a ''limit'' (JInt 20)) (arg_get a ''offset_id'' (JInt 0)) = Inr ds"
  shows "\<exists>entries.
           handle_list_chats rc a = Inr [TextContentJson (JList (map JObj entries))] \<and>
           list_all2
             (\<lambda>d e. map_of e ''id'' = Some (JInt (d_id d)) \<and>
                    map_of e ''type'' = Some (JStr t) \<and>
                    map_of e ''unread_count'' = Some (JInt (d_unread_count d)) \<and>
                    map_of e ''last_message'' =
                      (case d_message d of
                         None \<Rightarrow> None
                       | Some m \<Rightarrow>
                           (case m_text m of
                              None \<Rightarrow> None
                            | Some txt \<Rightarrow>
                                if txt = [] then None else Some (JStr (take 100 txt)))) \<and>
                    (\<forall>s. map_of e ''last_message'' = Some (JStr s) \<longrightarrow> length s \<le> 100))
             (filter (\<lambda>d. get_chat_type (d_entity d) = t) ds) entries"
proof -
  let ?kept = "filter (\<lambda>d. get_chat_type (d_entity d) = t) ds"
  have ne: "t \<noteq> []" using assms(2) by (auto simp: chat_type_enum_def)
  have h: "handle_list_chats rc a =
             Inr [TextContentJson (JList (map JObj (map (\<lambda>d. chat_info d t) ?kept)))]"
    by (rule handle_list_chats_nonempty_filter[OF assms(1) ne assms(3)])
  have len: "\<And>d s. map_of (chat_info d t) ''last_message'' = Some (JStr s) \<Longrightarrow> length s \<le> 100"
    by (auto simp: chat_info_preview split: option.splits if_splits)
  have rel: "list_all2
             (\<lambda>d e. map_of e ''id'' = Some (JInt (d_id d)) \<and>
                    map_of e ''type'' = Some (JStr t) \<and>
                    map_of e ''unread_count'' = Some (JInt (d_unread_count d)) \<and>
                    map_of e ''last_message'' =
                      (case d_message d of
                         None \<Rightarrow> None
                       | Some m \<Rightarrow>
                           (case m_text m of
                              None \<Rightarrow> None
                            | Some txt \<Rightarrow>
                                if txt = [] then None else Some (JStr (take 100 txt)))) \<and>
                    (\<forall>s. map_of e ''last_message'' = Some (JStr s) \<longrightarrow> length s \<le> 100))
             ?kept (map (\<lambda>d. chat_info d t) ?kept)"
    unfolding list_all2_map2
    by (rule list_all2_refl) (use len in \<open>simp add: chat_info_fields chat_info_preview\<close>)
  show ?thesis using h rel by blast
qed

text \<open>
  Of the four sample dialogs the filter \<open>group\<close> keeps the basic group and the megagroup,
  in that order; the preview of the first is cut from 150 characters to 100.
\<close>

theorem handle_list_chats_filters_witness:
  "sample_chats_args ''chat_type'' = Some (JStr ''group'') \<and>
   ''group'' \<in> set chat_type_enum \<and>
   map d_id (filter (\<lambda>d. get_chat_type (d_entity d) = ''group'') sample_dialogs) = [2, 4] \<and>
   (\<exists>entries.
      handle_list_chats sample_chats_remote sample_chats_args =
        Inr [TextContentJson (JList (map JObj entries))] \<and>
      map (\<lambda>e. map_of e ''id'') entries = [Some (JInt 2), Some (JInt 4)] \<and>
      map (\<lambda>e. map_of e ''last_message'') entries =
        [Some (JStr (replicate 100 (CHR ''a''))), None])"
proof -
  have h1: "sample_chats_args ''chat_type'' = Some (JStr ''group'')"
    by (simp add: sample_chats_args_def)
  have h2: "''group'' \<in> set chat_type_enum"
    by (simp add: chat_type_enum_def)
  have h3: "get_dialogs sample_chats_remote (arg_get sample_chats_args ''limit'' (JInt 20))
              (arg_get sample_chats_args ''offset_id'' (JInt 0)) = Inr sample_dialogs"
    by (simp add: sample_chats_remote_def)
  have h4: "filter (\<lambda>d. get_chat_type (d_entity d) = ''group'') sample_dialogs =
              [sample_dialog 2 (Some (sample_msg\<lparr>m_text := Some sample_long_text\<rparr>))
                 (Chat \<lparr>c_id = 2, c_title = None\<rparr>),
               sample_dialog 4 None (Channel \<lparr>ch_id = 4, ch_title = None, ch_megagroup = True\<rparr>)]"
    by (simp add: sample_dialogs_def sample_dialog_def)
  have long: "sample_long_text \<noteq> []" "take 100 sample_long_text = replicate 100 (CHR ''a'')"
    by (simp_all add: sample_long_text_def)
  show ?thesis
    using h1 h2 long handle_list_chats_filters[OF h1 h2 h3]
    unfolding h4
    by (auto simp: sample_dialog_def list_all2_Cons1)
qed

section \<open>Timestamp formatting\<close>

lemma str_nat_1: "n < 10 \<Longrightarrow> str_nat n = [digit_char n]"
  by (subst str_nat.simps) simp

lemma length_str_nat_2: "10 \<le> n \<Longrightarrow> n < 100 \<Longrightarrow> length (str_nat n) = 2"
  by (subst str_nat.simps) (simp add: str_nat_1)

lemma length_str_nat_3: "100 \<le> n \<Longrightarrow> n < 1000 \<Longrightarrow> length (str_nat n) = 3"
  by (subst str_nat.simps) (simp add: length_str_nat_2)

lemma length_str_nat_4: "1000 \<le> n \<Longrightarrow> n < 10000 \<Longrightarrow> length (str_nat n) = 4"
  by (subst str_nat.simps) (simp add: length_str_nat_3)

lemma length_pad2: "n < 100 \<Longrightarrow> length (pad2 n) = 2"
  by (simp add: pad2_def str_nat_1 length_str_nat_2)

lemma pad2_digits: "\<forall>c \<in> set (pad2 n). is_digit c"
  using str_nat_digits[of n] by (simp add: pad2_def is_digit_def)

lemma digit_val_zero: "digit_val (CHR ''0'') = 0"
  by (simp add: digit_val_def)

lemma foldl_pad2: "foldl (\<lambda>a c. 10 * a + digit_val c) 0 (pad2 n) = n"
  by (simp add: pad2_def foldl_str_nat digit_val_zero)

lemma take_digits_append:
  "\<forall>c \<in> set ds. is_digit c \<Longrightarrow> length ds = k \<Longrightarrow>
   take_digits k (ds @ rest) = Some (foldl (\<lambda>a c. 10 * a + digit_val c) 0 ds, rest)"
  by (simp add: take_digits_def)

lemma take_digits_year:
  "1000 \<le> y \<Longrightarrow> y < 10000 \<Longrightarrow> take_digits 4 (str_nat y @ rest) = Some (y, rest)"
  using take_digits_append[OF str_nat_digits, of y 4 rest]
  by (simp add: length_str_nat_4 foldl_str_nat)

lemma take_digits_pad2:
  "n < 100 \<Longrightarrow> take_digits 2 (pad2 n @ rest) = Some (n, rest)"
  using take_digits_append[OF pad2_digits, of n 2 rest]
  by (simp add: length_pad2 foldl_pad2)

lemma expect_Cons: "expect [c] (c # rest) = Some rest"
  by (simp add: expect_def)



lemma parse_strftime:
  assumes "valid_datetime dt" and "1000 \<le> year dt"
  shows "parse_timestamp (strftime dt) = Some (dt\<lparr>microsecond := 0, tzinfo := Some 0\<rparr>)"
proof -
  have b: "year dt < 10000" "month dt < 100" "day dt < 100" "hour dt < 100" "minute dt < 100"
    "second dt < 100"
    using assms(1) by (auto simp: valid_datetime_def days_in_month_def split: if_splits)
  have v: "valid_datetime \<lparr>year = year dt, month = month dt, day = day dt, hour = hour dt,
             minute = minute dt, second = second dt, microsecond = 0, tzinfo = Some 0\<rparr>"
    using assms(1) by (simp add: valid_datetime_def)
  have e: "dt\<lparr>microsecond := 0, tzinfo := Some 0\<rparr> =
           \<lparr>year = year dt, month = month dt, day = day dt, hour = hour dt,
             minute = minute dt, second = second dt, microsecond = 0, tzinfo = Some 0\<rparr>"
    by (cases dt) simp
  have s: "strftime dt =
     str_nat (year dt) @ CHR ''-'' # pad2 (month dt) @ CHR ''-'' # pad2 (day dt) @ CHR '' '' #
     pad2 (hour dt) @ CHR '':'' # pad2 (minute dt) @ CHR '':'' # pad2 (second dt) @ '' UTC''"
    by (simp add: strftime_def)
  show ?thesis
    unfolding e s parse_timestamp_def
    by (simp only: take_digits_year[OF assms(2) b(1)] take_digits_pad2[OF b(2)]
          take_digits_pad2[OF b(3)] take_digits_pad2[OF b(4)] take_digits_pad2[OF b(5)]
          take_digits_pad2[OF b(6)] expect_Cons Option.bind.simps prod.case v simp_thms if_True)
qed

lemma length_strftime:
  assumes "valid_datetime dt" and "1000 \<le> year dt"
  shows "length (strftime dt) = 23"
proof -
  have b: "year dt < 10000" "month dt < 100" "day dt < 100" "hour dt < 100" "minute dt < 100"
    "second dt < 100"
    using assms(1) by (auto simp: valid_datetime_def days_in_month_def split: if_splits)
  show ?thesis
    using assms(2) b by (simp add: strftime_def length_str_nat_4 length_pad2)
qed

lemma strftime_fields:
  "strftime (dt\<lparr>microsecond := us, tzinfo := tz\<rparr>) = strftime dt"
  by (simp add: strftime_def)

lemma format_timestamp_Some: "format_timestamp (Some dt) = Some (strftime dt)"
  by (simp add: format_timestamp_def strftime_def)

text \<open>
  Claim C5.  A null timestamp formats to null.  A timestamp with a four-digit year
  formats to a string of the 23 characters \<open>YYYY-MM-DD HH:MM:SS UTC\<close>: the reader of
  that format accepts it and returns the same wall-clock fields as a UTC instant with the
  microseconds dropped, and formatting that instant gives the same string again.
\<close>

theorem format_timestamp_fixed_format:
  "format_timestamp None = None \<and>
   (valid_datetime dt \<and> 1000 \<le> year dt \<longrightarrow>
      (\<exists>s. format_timestamp (Some dt) = Some s \<and> length s = 23 \<and>
           parse_timestamp s = Some (dt\<lparr>microsecond := 0, tzinfo := Some 0\<rparr>) \<and>
           format_timestamp (parse_timestamp s) = Some s))"
proof (intro conjI impI)
  show "format_timestamp None = None" by (simp add: format_timestamp_def)
next
  assume a: "valid_datetime dt \<and> 1000 \<le> year dt"
  then have p: "parse_timestamp (strftime dt) = Some (dt\<lparr>microsecond := 0, tzinfo := Some 0\<rparr>)"
    and l: "length (strftime dt) = 23"
    by (simp_all add: parse_strftime length_strftime)
  show "\<exists>s. format_timestamp (Some dt) = Some s \<and> length s = 23 \<and>
           parse_timestamp s = Some (dt\<lparr>microsecond := 0, tzinfo := Some 0\<rparr>) \<and>
           format_timestamp (parse_timestamp s) = Some s"
    using p l by (simp add: format_timestamp_Some strftime_fields)
qed

lemma str_nat_2: "10 \<le> n \<Longrightarrow> n < 100 \<Longrightarrow> str_nat n = [digit_char (n div 10), digit_char (n mod 10)]"
  by (subst str_nat.simps) (simp add: str_nat_1)

lemma str_nat_3:
  "100 \<le> n \<Longrightarrow> n < 1000 \<Longrightarrow>
   str_nat n = [digit_char (n div 100), digit_char (n div 10 mod 10), digit_char (n mod 10)]"
  by (subst str_nat.simps) (simp add: str_nat_2 div_mult2_eq[symmetric])

lemma str_nat_4:
  "1000 \<le> n \<Longrightarrow> n < 10000 \<Longrightarrow>
   str_nat n = [digit_char (n div 1000), digit_char (n div 100 mod 10),
                digit_char (n div 10 mod 10), digit_char (n mod 10)]"
  by (subst str_nat.simps) (simp add: str_nat_3 div_mult2_eq[symmetric])

lemma digit_char_values:
  "digit_char 0 = CHR ''0''" "digit_char 1 = CHR ''1''" "digit_char 2 = CHR ''2''"
  "digit_char 3 = CHR ''3''" "digit_char 4 = CHR ''4''" "digit_char 5 = CHR ''5''"
  "digit_char 6 = CHR ''6''" "digit_char 7 = CHR ''7''" "digit_char 8 = CHR ''8''"
  "digit_char 9 = CHR ''9''"
  by code_simp+

lemma sample_dt_text:
  "format_timestamp (Some sample_dt) = Some ''2024-03-09 07:05:00 UTC''"
  by (simp add: format_timestamp_Some strftime_def sample_dt_def pad2_def str_nat_1 str_nat_4
        digit_char_values)


text \<open>The sample timestamp, naive and with microseconds, and its text read back.\<close>

theorem format_timestamp_fixed_format_witness:
  "valid_datetime sample_dt \<and> 1000 \<le> year sample_dt \<and>
   format_timestamp (Some sample_dt) = Some ''2024-03-09 07:05:00 UTC'' \<and>
   parse_timestamp ''2024-03-09 07:05:00 UTC'' =
     Some (sample_dt\<lparr>microsecond := 0, tzinfo := Some 0\<rparr>) \<and>
   format_timestamp (parse_timestamp ''2024-03-09 07:05:00 UTC'') = Some ''2024-03-09 07:05:00 UTC''"
proof -
  have v: "valid_datetime sample_dt \<and> 1000 \<le> year sample_dt"
    by (simp add: valid_datetime_def sample_dt_def days_in_month_def)
  show ?thesis
    using v sample_dt_text format_timestamp_fixed_format[of sample_dt] by auto
qed

section \<open>Read messages\<close>

lemma iter_of_append: "iter_of (xs @ ys) rest = iter_of xs (iter_of ys rest)"
  by (induction xs) simp_all

lemma dt_less_trans: "dt_less a b \<Longrightarrow> dt_less b c \<Longrightarrow> dt_less a c"
  unfolding dt_less_def by (rule less_trans)

lemma not_date_ge_later:
  assumes "\<not> date_ge cutoff x" and "newer x y" 
  shows "\<not> date_ge cutoff y"
  using assms dt_less_trans
  by (auto simp: date_ge_def newer_def split: option.splits)

lemma decreasing_filter_below:
  "sorted_wrt newer (x # xs) \<Longrightarrow> \<not> date_ge cutoff x \<Longrightarrow> filter (date_ge cutoff) xs = []"
  by (auto simp: filter_empty_conv dest: not_date_ge_later)

lemma decreasing_takeWhile_filter:
  "sorted_wrt newer ms \<Longrightarrow> takeWhile (date_ge cutoff) ms = filter (date_ge cutoff) ms"
proof (induction ms)
  case Nil
  then show ?case by simp
next
  case (Cons x xs)
  show ?case
  proof (cases "date_ge cutoff x")
    case True
    then show ?thesis using Cons by simp
  next
    case False
    then show ?thesis using decreasing_filter_below[OF Cons.prems False] by simp
  qed
qed

lemma min_date_break_set:
  assumes "a ''min_date'' = Some (JStr s)" and "s \<noteq> []" and "strptime s = Inr cutoff"
    and "m_date msg = Some d"
  shows "min_date_break strptime a msg = Inr (dt_less d cutoff)"
  using assms by (simp add: min_date_break_def arg_get_def strptime_arg_def)

lemma read_loop_kept:
  assumes md: "a ''min_date'' = Some (JStr s)" "s \<noteq> []" "strptime s = Inr cutoff"
  shows "\<forall>m \<in> set pre. date_ge cutoff m \<and> (\<exists>f. format_message m = Inr f) \<Longrightarrow>
         int (length acc) < L \<Longrightarrow>
         read_loop strptime a (JInt L) (iter_of pre rest) acc =
           (if L \<le> int (length acc + length pre)
            then Inr (acc @ map (\<lambda>m. projr (format_message m)) (take (nat L - length acc) pre))
            else read_loop strptime a (JInt L) rest (acc @ map (\<lambda>m. projr (format_message m)) pre))"
proof (induction pre arbitrary: acc)
  case Nil
  then show ?case by simp
next
  case (Cons m pre)
  let ?F = "\<lambda>m. projr (format_message m)"
  from Cons.prems(1) obtain d f where d: "m_date m = Some d" "\<not> dt_less d cutoff"
    and f: "format_message m = Inr f"
    by (auto simp: date_ge_def split: option.splits)
  have Ff: "?F m = f" by (simp add: f)
  have brk: "min_date_break strptime a m = Inr False"
    using min_date_break_set[of a s strptime cutoff m d] md d by simp
  have step: "read_loop strptime a (JInt L) (iter_of (m # pre) rest) acc =
                (if L \<le> int (length acc) + 1 then Inr (acc @ [f])
                 else read_loop strptime a (JInt L) (iter_of pre rest) (acc @ [f]))"
    by (simp add: brk f len_ge_def)
  show ?case
  proof (cases "L \<le> int (length acc) + 1")
    case True
    with Cons.prems(2) have one: "nat L - length acc = 1" by linarith
    have "read_loop strptime a (JInt L) (iter_of (m # pre) rest) acc = Inr (acc @ [f])"
      using step True by simp
    moreover have "L \<le> int (length acc + length (m # pre))" using True by simp
    moreover have "map ?F (take (nat L - length acc) (m # pre)) = [f]"
      by (simp add: one Ff)
    ultimately show ?thesis by simp
  next
    case False
    then have lt: "int (length (acc @ [f])) < L" by simp
    have all: "\<forall>m \<in> set pre. date_ge cutoff m \<and> (\<exists>f. format_message m = Inr f)"
      using Cons.prems(1) by simp
    have tk: "nat L - length acc = Suc (nat L - length (acc @ [f]))"
      using False by simp
    have c: "(L \<le> int (length (acc @ [f]) + length pre)) = (L \<le> int (length acc + length (m # pre)))"
      by simp
    have t: "(acc @ [f]) @ map ?F (take (nat L - length (acc @ [f])) pre) =
             acc @ map ?F (take (nat L - length acc) (m # pre))"
      by (simp add: tk Ff del: length_append)
    have u: "(acc @ [f]) @ map ?F pre = acc @ map ?F (m # pre)"
      by (simp add: Ff)
    have "read_loop strptime a (JInt L) (iter_of (m # pre) rest) acc =
          read_loop strptime a (JInt L) (iter_of pre rest) (acc @ [f])"
      using step False by simp
    also have "\<dots> = (if L \<le> int (length (acc @ [f]) + length pre)
            then Inr ((acc @ [f]) @ map ?F (take (nat L - length (acc @ [f])) pre))
            else read_loop strptime a (JInt L) rest ((acc @ [f]) @ map ?F pre))"
      by (rule Cons.IH[OF all lt])
    finally show ?thesis unfolding c t u .
  qed
qed


lemma read_loop_cutoff_pos:
  assumes md: "a ''min_date'' = Some (JStr s)" "s \<noteq> []" "strptime s = Inr cutoff"
    and L: "1 \<le> L"
    and dec: "dates_decreasing ms"
    and fmt: "\<forall>m \<in> set ms. \<exists>f. format_message m = Inr f"
    and stop: "rest = Stop \<or> (\<exists>m \<in> set ms. \<not> date_ge cutoff m) \<or>
               L \<le> int (length (filter (date_ge cutoff) ms))"
  shows "read_loop strptime a (JInt L) (iter_of ms rest) [] =
           Inr (map (\<lambda>m. projr (format_message m))
                    (take (nat L) (filter (date_ge cutoff) ms)))"
proof -
  let ?P = "date_ge cutoff"
  let ?F = "\<lambda>m. projr (format_message m)"
  let ?pre = "takeWhile ?P ms"
  let ?post = "dropWhile ?P ms"
  have flt: "filter ?P ms = ?pre"
    using dec by (simp add: dates_decreasing_def decreasing_takeWhile_filter)
  have split: "iter_of ms rest = iter_of ?pre (iter_of ?post rest)"
    using iter_of_append[of ?pre ?post rest] by simp
  have all: "\<forall>m \<in> set ?pre. ?P m \<and> (\<exists>f. format_message m = Inr f)"
    using fmt by (auto dest: set_takeWhileD)
  have kept: "read_loop strptime a (JInt L) (iter_of ?pre (iter_of ?post rest)) [] =
          (if L \<le> int (length ?pre)
           then Inr (map ?F (take (nat L) ?pre))
           else read_loop strptime a (JInt L) (iter_of ?post rest) (map ?F ?pre))"
    using read_loop_kept[where a = a and s = s and strptime = strptime and cutoff = cutoff
            and pre = "?pre" and acc = "[]" and L = L and rest = "iter_of ?post rest"]
      md all L
    by simp
  show ?thesis
  proof (cases "L \<le> int (length ?pre)")
    case True
    then show ?thesis using kept by (simp add: split flt)
  next
    case False
    then have tk: "take (nat L) ?pre = ?pre" by simp
    have tail: "read_loop strptime a (JInt L) (iter_of ?post rest) (map ?F ?pre) = Inr (map ?F ?pre)"
    proof (cases ?post)
      case Nil
      then have "\<forall>m \<in> set ms. ?P m" by (simp add: dropWhile_eq_Nil_conv)
      with stop False flt have "rest = Stop" by auto
      then show ?thesis unfolding Nil by simp
    next
      case (Cons m post')
      then have np: "\<not> ?P m" using hd_dropWhile[of ?P ms] by (metis list.sel(1) list.distinct(1))
      have "m \<in> set ms" using Cons by (metis list.set_intros(1) set_dropWhileD)
      then obtain d where d: "m_date m = Some d"
        using dec by (auto simp: dates_decreasing_def)
      with np have "dt_less d cutoff" by (simp add: date_ge_def)
      then have "min_date_break strptime a m = Inr True"
        using min_date_break_set[of a s strptime cutoff m d] md d by simp
      then show ?thesis unfolding Cons by simp
    qed
    show ?thesis using kept False tail by (simp add: split flt tk)
  qed
qed

lemma iter_of_Stop: "iter_of ms rest = Stop \<Longrightarrow> ms = [] \<and> rest = Stop"
  by (cases ms) simp_all

lemma read_loop_cutoff:
  assumes md: "a ''min_date'' = Some (JStr s)" "s \<noteq> []" "strptime s = Inr cutoff"
    and hl: "honours_limit L (iter_of ms rest)"
    and dec: "dates_decreasing ms"
    and fmt: "\<forall>m \<in> set ms. \<exists>f. format_message m = Inr f"
    and stop: "rest = Stop \<or> (\<exists>m \<in> set ms. \<not> date_ge cutoff m) \<or>
               L \<le> int (length (filter (date_ge cutoff) ms))"
  shows "read_loop strptime a (JInt L) (iter_of ms rest) [] =
           Inr (map (\<lambda>m. projr (format_message m))
                    (take (nat L) (filter (date_ge cutoff) ms)))"
proof (cases "1 \<le> L")
  case True
  show ?thesis
    by (rule read_loop_cutoff_pos[where a = a and s = s and strptime = strptime,
          OF md True dec fmt stop])
next
  case False
  then have "iter_of ms rest = Stop" using hl by (simp add: honours_limit_def)
  then have "ms = []" "rest = Stop" using iter_of_Stop by blast+
  then show ?thesis by simp
qed

lemma read_result_fields:
  assumes "messages \<noteq> [] \<longrightarrow> (\<exists>i. map_of (last messages) ''id'' = Some i)"
  shows "\<exists>result. read_result chat_id_raw messages = Inr result \<and>
           map_of result ''messages'' = Some (JList (map JObj messages)) \<and>
           map_of result ''message_count'' = Some (JInt (int (length messages)))"
  using assms
  by (auto simp: read_result_def dict_index_def Let_def update_conv')


text \<open>
  Claim C2.  The stream the client library hands over yields the messages \<open>ms\<close>, in
  strictly decreasing date order, and then goes on as \<open>rest\<close>; it honours the limit it
  was given, in that it yields nothing when the limit is 0 or below.  When the stream
  ends after \<open>ms\<close>, or \<open>ms\<close> holds a message below the cutoff, or \<open>ms\<close> holds \<open>limit\<close>
  messages at or after the cutoff, the handler returns the records of exactly the
  messages of \<open>ms\<close> whose date is at or after the cutoff, capped at \<open>limit\<close>, in stream
  order.  The answer does not depend on \<open>rest\<close>: the loop has stopped before it, so
  nothing behind the first message below the cutoff is consumed, not even a failure of
  the stream.
\<close>

theorem handle_read_messages_min_date:
  assumes "a ''chat_id'' = Some chat_id_raw"
    and "arg_get a ''limit'' (JInt 20) = JInt L"
    and "honours_limit L (iter_of ms rest)"
    and "a ''min_date'' = Some (JStr s)" and "s \<noteq> []" and "strptime s = Inr cutoff"
    and "read_kwargs strptime a = Inr kwargs"
    and "iter_messages rc (resolve_chat_id chat_id_raw) kwargs = iter_of ms rest"
    and "dates_decreasing ms"
    and "\<forall>m \<in> set ms. \<exists>f. format_message m = Inr f"
    and "rest = Stop \<or> (\<exists>m \<in> set ms. \<not> date_ge cutoff m) \<or>
         L \<le> int (length (filter (date_ge cutoff) ms))"
  shows "\<exists>out result.
           handle_read_messages strptime rc a = Inr [TextContentJson (JObj result)] \<and>
           map Inr out = map format_message (take (nat L) (filter (date_ge cutoff) ms)) \<and>
           map_of result ''messages'' = Some (JList (map JObj out)) \<and>
           map_of result ''message_count'' = Some (JInt (int (length out)))"
proof -
  let ?F = "\<lambda>m. projr (format_message m)"
  let ?kept = "take (nat L) (filter (date_ge cutoff) ms)"
  let ?out = "map ?F ?kept"
  have sub: "set ?kept \<subseteq> set ms"
    by (auto dest: in_set_takeD)
  have fm: "\<And>m. m \<in> set ?kept \<Longrightarrow> format_message m = Inr (?F m)"
  proof -
    fix m assume "m \<in> set ?kept"
    with sub assms(10) obtain f where "format_message m = Inr f" by blast
    then show "format_message m = Inr (?F m)" by simp
  qed
  have loop: "read_loop strptime a (JInt L) (iter_of ms rest) [] = Inr ?out"
    by (rule read_loop_cutoff[where a = a and s = s and strptime = strptime,
          OF assms(4,5,6,3,9,10,11)])
  have m1: "map Inr ?out = map format_message ?kept"
    using fm by (simp add: comp_def)
  have lastid: "?out \<noteq> [] \<longrightarrow> (\<exists>i. map_of (last ?out) ''id'' = Some i)"
  proof
    assume ne: "?out \<noteq> []"
    then have k: "?kept \<noteq> []" by simp
    then have "last ?kept \<in> set ?kept" by (rule last_in_set)
    then have "format_message (last ?kept) = Inr (?F (last ?kept))" by (rule fm)
    then have "map_of (?F (last ?kept)) ''id'' = Some (JInt (m_id (last ?kept)))"
      by (rule format_message_id)
    moreover have "last ?out = ?F (last ?kept)" using k by (simp add: last_map)
    ultimately show "\<exists>i. map_of (last ?out) ''id'' = Some i" by simp
  qed
  from read_result_fields[OF lastid, of chat_id_raw] obtain result where
    rr: "read_result chat_id_raw ?out = Inr result"
    and r1: "map_of result ''messages'' = Some (JList (map JObj ?out))"
    and r2: "map_of result ''message_count'' = Some (JInt (int (length ?out)))"
    by blast
  have h: "handle_read_messages strptime rc a = Inr [TextContentJson (JObj result)]"
    using assms(1,2,7,8) loop rr
    by (simp add: handle_read_messages_def arg_index_Some Let_def)
  show ?thesis using h m1 r1 r2 by blast
qed


lemma sample_dates:
  "date_ge sample_cutoff sample_march" "\<not> date_ge sample_cutoff sample_december"
  "dates_decreasing [sample_march, sample_december]"
  by (simp_all add: date_ge_def dates_decreasing_def newer_def dt_less_def dt_key_def
        sample_cutoff_def sample_march_def sample_december_def sample_msg_def sample_dt_def)

lemma sample_min_date:
  "sample_read_args L ''min_date'' = Some (JStr ''2024-01-01'')"
  "sample_strptime ''2024-01-01'' = Inr sample_cutoff"
  by (simp_all add: sample_read_args_def sample_strptime_def sample_cutoff_def)

text \<open>
  Limit 5, the March message kept, the December message below the cutoff; the stream
  would fail after it, and the handler never gets there.  And limit 0 on a stream that
  yields nothing: no message comes back.
\<close>

theorem handle_read_messages_min_date_witness:
  "sample_read_args 5 ''chat_id'' = Some (JInt 100) \<and>
   arg_get (sample_read_args 5) ''limit'' (JInt 20) = JInt 5 \<and>
   honours_limit 5 (iter_of [sample_march, sample_december]
                      (Raise (OtherException ''connection reset''))) \<and>
   sample_read_args 5 ''min_date'' = Some (JStr ''2024-01-01'') \<and>
   sample_strptime ''2024-01-01'' = Inr sample_cutoff \<and>
   dates_decreasing [sample_march, sample_december] \<and>
   \<not> date_ge sample_cutoff sample_december \<and>
   iter_messages (sample_read_remote (Raise (OtherException ''connection reset'')))
       (resolve_chat_id (JInt 100))
       [(''limit'', KwJson (JInt 5)), (''offset_id'', KwJson (JInt 0)), (''offset_date'', KwNone)] =
     iter_of [sample_march, sample_december] (Raise (OtherException ''connection reset'')) \<and>
   filter (date_ge sample_cutoff) [sample_march, sample_december] = [sample_march] \<and>
   (\<exists>out result.
      handle_read_messages sample_strptime
          (sample_read_remote (Raise (OtherException ''connection reset''))) (sample_read_args 5) =
        Inr [TextContentJson (JObj result)] \<and>
      map Inr out = map format_message [sample_march] \<and>
      map_of result ''messages'' = Some (JList (map JObj out)) \<and>
      map_of result ''message_count'' = Some (JInt (int (length out)))) \<and>
   honours_limit 0 (iter_of [] Stop) \<and>
   (\<exists>result.
      handle_read_messages sample_strptime sample_remote (sample_read_args 0) =
        Inr [TextContentJson (JObj result)] \<and>
      map_of result ''messages'' = Some (JList []) \<and>
      map_of result ''message_count'' = Some (JInt 0))"
proof -
  let ?rest = "Raise (OtherException ''connection reset'')"
  have h1: "sample_read_args 5 ''chat_id'' = Some (JInt 100)"
    by (simp add: sample_read_args_def)
  have h2: "arg_get (sample_read_args 5) ''limit'' (JInt 20) = JInt 5"
    by (simp add: sample_read_args_def arg_get_def)
  have h3: "honours_limit 5 (iter_of [sample_march, sample_december] ?rest)"
    by (simp add: honours_limit_def)
  have h5: "''2024-01-01'' \<noteq> []" by simp
  have h7: "read_kwargs sample_strptime (sample_read_args 5) =
              Inr [(''limit'', KwJson (JInt 5)), (''offset_id'', KwJson (JInt 0)),
                   (''offset_date'', KwNone)]"
    by (simp add: read_kwargs_def sample_read_args_def arg_get_def)
  have h8: "iter_messages (sample_read_remote ?rest) (resolve_chat_id (JInt 100))
              [(''limit'', KwJson (JInt 5)), (''offset_id'', KwJson (JInt 0)),
               (''offset_date'', KwNone)] =
            iter_of [sample_march, sample_december] ?rest"
    by (simp add: sample_read_remote_def sample_remote_def)
  have h10: "\<forall>m \<in> set [sample_march, sample_december]. \<exists>f. format_message m = Inr f"
    using format_message_returns[of sample_march None] format_message_returns[of sample_december None]
    by (simp add: sample_march_def sample_december_def sample_msg_def)
  have h11: "?rest = Stop \<or> (\<exists>m \<in> set [sample_march, sample_december]. \<not> date_ge sample_cutoff m) \<or>
             5 \<le> int (length (filter (date_ge sample_cutoff) [sample_march, sample_december]))"
    using sample_dates(2) by simp
  have flt: "filter (date_ge sample_cutoff) [sample_march, sample_december] = [sample_march]"
    using sample_dates(1,2) by simp
  have five: "\<exists>out result.
      handle_read_messages sample_strptime (sample_read_remote ?rest) (sample_read_args 5) =
        Inr [TextContentJson (JObj result)] \<and>
      map Inr out = map format_message [sample_march] \<and>
      map_of result ''messages'' = Some (JList (map JObj out)) \<and>
      map_of result ''message_count'' = Some (JInt (int (length out)))"
    using handle_read_messages_min_date[where a = "sample_read_args 5"
        and strptime = sample_strptime and s = "''2024-01-01''",
        OF h1 h2 h3 sample_min_date(1) h5 sample_min_date(2) h7 h8 sample_dates(3) h10 h11]
    by (simp add: sample_dates(1,2))
  have z1: "sample_read_args 0 ''chat_id'' = Some (JInt 100)"
    by (simp add: sample_read_args_def)
  have z2: "arg_get (sample_read_args 0) ''limit'' (JInt 20) = JInt 0"
    by (simp add: sample_read_args_def arg_get_def)
  have z3: "honours_limit 0 (iter_of [] Stop)"
    by (simp add: honours_limit_def)
  have z7: "read_kwargs sample_strptime (sample_read_args 0) =
              Inr [(''limit'', KwJson (JInt 0)), (''offset_id'', KwJson (JInt 0)),
                   (''offset_date'', KwNone)]"
    by (simp add: read_kwargs_def sample_read_args_def arg_get_def)
  have z8: "iter_messages sample_remote (resolve_chat_id (JInt 100))
              [(''limit'', KwJson (JInt 0)), (''offset_id'', KwJson (JInt 0)),
               (''offset_date'', KwNone)] = iter_of [] Stop"
    by (simp add: sample_remote_def)
  have z9: "dates_decreasing []" by (simp add: dates_decreasing_def)
  have z10: "\<forall>m \<in> set ([] :: message list). \<exists>f. format_message m = Inr f" by simp
  have z11: "Stop = Stop \<or> (\<exists>m \<in> set ([] :: message list). \<not> date_ge sample_cutoff m) \<or>
             0 \<le> int (length (filter (date_ge sample_cutoff) []))"
    by simp
  have zero: "\<exists>result.
      handle_read_messages sample_strptime sample_remote (sample_read_args 0) =
        Inr [TextContentJson (JObj result)] \<and>
      map_of result ''messages'' = Some (JList []) \<and>
      map_of result ''message_count'' = Some (JInt 0)"
    using handle_read_messages_min_date[where a = "sample_read_args 0"
        and strptime = sample_strptime and s = "''2024-01-01''",
        OF z1 z2 z3 sample_min_date(1) h5 sample_min_date(2) z7 z8 z9 z10 z11]
    by auto
  show ?thesis
    using h1 h2 h3 sample_min_date sample_dates(2,3) h8 flt five z3 zero
    by simp
qed

end
